theory Spec2Isabelle
  imports Main
begin

section \<open>Data model of the signal-input migration, pass 6\<close>

text \<open>
  The source is \<^verbatim>\<open>passes/6_migrate_input_declarations.ts\<close>. A \<^verbatim>\<open>ts.SourceFile\<close> and a
  tsurge \<^verbatim>\<open>ProjectFile\<close> are objects compared by identity; they are modelled by their names.
\<close>

type_synonym source_file = string
type_synonym project_file = string

text \<open>
  The input node of a descriptor is a property declaration or an accessor declaration;
  \<^verbatim>\<open>ts.isAccessor\<close> holds for the get and the set accessor.
\<close>

datatype syntax_kind = PropertyDeclaration | GetAccessor | SetAccessor

record input_node =
  getSourceFile :: source_file
  kind :: syntax_kind
  getStart :: nat
  getEnd :: nat

definition isAccessor :: "input_node \<Rightarrow> bool" where
  "isAccessor n = (kind n = GetAccessor \<or> kind n = SetAccessor)"

record input_descriptor =
  key :: string
  node :: input_node

text \<open>
  Modelled from the spec: the class behind \<^verbatim>\<open>knownInputs.get(input)\<close> is not part of the
  sources at hand. The spec gives a declaration a verdict, one of compatible and
  incompatible, with a reason code when incompatible.
\<close>

datatype classification = Compatible | Incompatible nat

fun isIncompatible :: "classification \<Rightarrow> bool" where
  "isIncompatible Compatible = False"
| "isIncompatible (Incompatible reason) = True"

text \<open>\<^verbatim>\<open>new TextUpdate({position, end, toInsert})\<close> and \<^verbatim>\<open>new Replacement(projectFile, update)\<close>.\<close>

datatype text_update = TextUpdate (position: nat) (endPos: nat) (toInsert: string)

datatype replacement = Replacement (rFile: project_file) (rUpdate: text_update)

text \<open>
  \<^verbatim>\<open>MigrationResult\<close>: the registry \<^verbatim>\<open>sourceInputs\<close> is a JavaScript \<^verbatim>\<open>Map\<close>, iterated in
  insertion order, from a descriptor to its metadata or \<^verbatim>\<open>null\<close>; \<^verbatim>\<open>replacements\<close> is the
  array the pass pushes to.
\<close>

record 'm migration_result =
  sourceInputs :: "(input_descriptor \<times> 'm option) list"
  replacements :: "replacement list"

text \<open>
  Modelled from the spec: the Import Manager is an external collaborator with the two
  commands \<^verbatim>\<open>registerImport(file, symbol, sourceModule)\<close> and
  \<^verbatim>\<open>removeImport(file, symbol, sourceModule)\<close>. Its state is the sequence of commands it has
  received, oldest first.
\<close>

datatype im_call =
  RegisterImport source_file string string
| RemoveImport source_file string string

type_synonym import_manager = "im_call list"

definition removeImport :: "import_manager \<Rightarrow> source_file \<Rightarrow> string \<Rightarrow> string \<Rightarrow> import_manager" where
  "removeImport im file symbol moduleName = im @ [RemoveImport file symbol moduleName]"

record migration_config =
  insertTodosForSkippedFields :: bool

record migration_host =
  config :: migration_config

text \<open>
  The three imported functions whose bodies are not part of the sources at hand are
  parameters of the model. \<^verbatim>\<open>convertToSignalInput\<close> receives the import manager and the
  result object; it returns the text and the commands it sends to the import manager.
  The annotator and \<^verbatim>\<open>projectFile\<close> receive neither. All three are taken to return: a
  throw inside them is not modelled.
\<close>

record ('m, 'c, 'p) externals =
  convertToSignalInput ::
    "input_node \<Rightarrow> 'm \<Rightarrow> 'c \<Rightarrow> import_manager \<Rightarrow> 'm migration_result \<Rightarrow> string \<times> im_call list"
  insertTodoForIncompatibility :: "input_node \<Rightarrow> 'p \<Rightarrow> classification \<Rightarrow> replacement list"
  projectFile :: "source_file \<Rightarrow> 'p \<Rightarrow> project_file"

text \<open>
  The variables of the pass: the result object and the import manager, which it mutates,
  and its two local sets. A JavaScript \<^verbatim>\<open>Set\<close> iterates in insertion order, so
  \<^verbatim>\<open>filesWithMigratedInputs\<close> is a list without repetition; the \<^verbatim>\<open>WeakSet\<close> is only asked
  for membership.
\<close>

record 'm pass_state =
  result :: "'m migration_result"
  importManager :: import_manager
  filesWithMigratedInputs :: "source_file list"
  filesWithIncompatibleInputs :: "source_file set"

definition setAdd :: "'a list \<Rightarrow> 'a \<Rightarrow> 'a list" where
  "setAdd xs x = (if x \<in> set xs then xs else xs @ [x])"

datatype error = AssertionError string | TypeError string

section \<open>The pass\<close>

text \<open>
  The skip path, lines 40 to 45: the TODO edits are pushed when the option asks for them,
  and the file joins \<^verbatim>\<open>filesWithIncompatibleInputs\<close>.
\<close>

definition skipPath ::
  "('m, 'c, 'p) externals \<Rightarrow> migration_host \<Rightarrow> 'p \<Rightarrow> 'm pass_state \<Rightarrow> input_descriptor \<Rightarrow>
   classification \<Rightarrow> 'm pass_state" where
  "skipPath ext host info st input inputInfo =
    (let sf = getSourceFile (node input);
         st1 = (if insertTodosForSkippedFields (config host)
                then st\<lparr>result := (result st)\<lparr>replacements := replacements (result st) @
                        insertTodoForIncompatibility ext (node input) info inputInfo\<rparr>\<rparr>
                else st)
     in st1\<lparr>filesWithIncompatibleInputs := insert sf (filesWithIncompatibleInputs st1)\<rparr>)"

text \<open>
  The migrate path, lines 52 to 62: the file joins \<^verbatim>\<open>filesWithMigratedInputs\<close>, then the
  arguments of the push are evaluated (\<^verbatim>\<open>projectFile\<close>, then \<^verbatim>\<open>convertToSignalInput\<close>, which
  may send commands to the import manager), then the one replacement is pushed.
\<close>

definition migratePath ::
  "('m, 'c, 'p) externals \<Rightarrow> 'c \<Rightarrow> 'p \<Rightarrow> 'm pass_state \<Rightarrow> input_descriptor \<Rightarrow> 'm \<Rightarrow> 'm pass_state" where
  "migratePath ext checker info st input md =
    (let sf = getSourceFile (node input);
         st1 = st\<lparr>filesWithMigratedInputs := setAdd (filesWithMigratedInputs st) sf\<rparr>;
         pf = projectFile ext sf info;
         conv = convertToSignalInput ext (node input) md checker (importManager st1) (result st1);
         st2 = st1\<lparr>importManager := importManager st1 @ snd conv\<rparr>
     in st2\<lparr>result := (result st2)\<lparr>replacements := replacements (result st2) @
          [Replacement pf (TextUpdate (getStart (node input)) (getEnd (node input)) (fst conv))]\<rparr>\<rparr>)"

text \<open>
  The body of the first loop, lines 35 to 62. A failed \<^verbatim>\<open>assert\<close> throws, and so does the
  method call on \<^verbatim>\<open>undefined\<close> when \<^verbatim>\<open>knownInputs\<close> has no entry (the \<^verbatim>\<open>!\<close> is erased at run
  time); the error carries the state at the throw, since the pushes made so far stay in
  the result object.
\<close>

definition processInput ::
  "('m, 'c, 'p) externals \<Rightarrow> migration_host \<Rightarrow> 'c \<Rightarrow> (input_descriptor \<rightharpoonup> classification) \<Rightarrow> 'p \<Rightarrow>
   'm pass_state \<Rightarrow> input_descriptor \<Rightarrow> 'm option \<Rightarrow> (error \<times> 'm pass_state) + 'm pass_state" where
  "processInput ext host checker knownInputs info st input metadata =
    (case knownInputs input of
       None \<Rightarrow> Inl (TypeError ''Cannot read properties of undefined'', st)
     | Some inputInfo \<Rightarrow>
        if isIncompatible inputInfo then Inr (skipPath ext host info st input inputInfo)
        else
          (case metadata of
             None \<Rightarrow>
               Inl (AssertionError ''Expected metadata to exist for input isn't marked incompatible.'', st)
           | Some md \<Rightarrow>
               if isAccessor (node input)
               then Inl (AssertionError ''Accessor inputs are incompatible.'', st)
               else Inr (migratePath ext checker info st input md)))"

text \<open>The first loop, lines 34 to 63: it stops at the first throw.\<close>

fun migrateLoop ::
  "('m, 'c, 'p) externals \<Rightarrow> migration_host \<Rightarrow> 'c \<Rightarrow> (input_descriptor \<rightharpoonup> classification) \<Rightarrow> 'p \<Rightarrow>
   'm pass_state \<Rightarrow> (input_descriptor \<times> 'm option) list \<Rightarrow> (error \<times> 'm pass_state) + 'm pass_state" where
  "migrateLoop ext host checker knownInputs info st [] = Inr st"
| "migrateLoop ext host checker knownInputs info st ((input, metadata) # rest) =
    (case processInput ext host checker knownInputs info st input metadata of
       Inl err \<Rightarrow> Inl err
     | Inr st' \<Rightarrow> migrateLoop ext host checker knownInputs info st' rest)"

text \<open>The second loop, lines 65 to 70.\<close>

fun removeLoop :: "source_file set \<Rightarrow> import_manager \<Rightarrow> source_file list \<Rightarrow> import_manager" where
  "removeLoop incompatibleFiles im [] = im"
| "removeLoop incompatibleFiles im (file # files) =
    removeLoop incompatibleFiles
      (if file \<notin> incompatibleFiles then removeImport im file ''Input'' ''@angular/core'' else im) files"

text \<open>Lines 31 and 32: both sets start empty.\<close>

definition initialState :: "'m migration_result \<Rightarrow> import_manager \<Rightarrow> 'm pass_state" where
  "initialState res im =
    \<lparr>result = res, importManager = im, filesWithMigratedInputs = [], filesWithIncompatibleInputs = {}\<rparr>"

text \<open>The pass, lines 23 to 71.\<close>

definition pass6__migrateInputDeclarations ::
  "('m, 'c, 'p) externals \<Rightarrow> migration_host \<Rightarrow> 'c \<Rightarrow> 'm migration_result \<Rightarrow>
   (input_descriptor \<rightharpoonup> classification) \<Rightarrow> import_manager \<Rightarrow> 'p \<Rightarrow> (error \<times> 'm pass_state) + 'm pass_state" where
  "pass6__migrateInputDeclarations ext host checker res knownInputs im info =
    (let st0 = initialState res im
     in case migrateLoop ext host checker knownInputs info st0 (sourceInputs res) of
          Inl err \<Rightarrow> Inl err
        | Inr st \<Rightarrow>
            Inr (st\<lparr>importManager :=
              removeLoop (filesWithIncompatibleInputs st) (importManager st) (filesWithMigratedInputs st)\<rparr>))"

section \<open>Notions the properties are stated with\<close>

text \<open>The verdict of the registry on a declaration; a declaration without an entry has none.\<close>

definition incompatibleInput :: "(input_descriptor \<rightharpoonup> classification) \<Rightarrow> input_descriptor \<Rightarrow> bool" where
  "incompatibleInput knownInputs input =
    (case knownInputs input of None \<Rightarrow> False | Some inputInfo \<Rightarrow> isIncompatible inputInfo)"

definition compatibleInput :: "(input_descriptor \<rightharpoonup> classification) \<Rightarrow> input_descriptor \<Rightarrow> bool" where
  "compatibleInput knownInputs input =
    (case knownInputs input of None \<Rightarrow> False | Some inputInfo \<Rightarrow> \<not> isIncompatible inputInfo)"

text \<open>
  A compatible declaration that breaks the classifier's contract: its metadata is
  \<^verbatim>\<open>null\<close>, or its node is an accessor.
\<close>

definition contractViolation ::
  "(input_descriptor \<rightharpoonup> classification) \<Rightarrow> input_descriptor \<times> 'm option \<Rightarrow> bool" where
  "contractViolation knownInputs d =
    (compatibleInput knownInputs (fst d) \<and> (snd d = None \<or> isAccessor (node (fst d))))"

text \<open>The commands an import manager has received between two of its states.\<close>

definition issued :: "import_manager \<Rightarrow> import_manager \<Rightarrow> im_call list" where
  "issued before after = drop (length before) after"

fun isRemoveImport :: "im_call \<Rightarrow> bool" where
  "isRemoveImport (RemoveImport file symbol moduleName) = True"
| "isRemoveImport (RegisterImport file symbol moduleName) = False"

fun isRemoveImportOf :: "source_file \<Rightarrow> im_call \<Rightarrow> bool" where
  "isRemoveImportOf F (RemoveImport file symbol moduleName) = (file = F)"
| "isRemoveImportOf F (RegisterImport file symbol moduleName) = False"

text \<open>The state a run ends in, thrown or returned.\<close>

fun outcomeState :: "(error \<times> 'm pass_state) + 'm pass_state \<Rightarrow> 'm pass_state" where
  "outcomeState (Inl (err, st)) = st"
| "outcomeState (Inr st) = st"

text \<open>The edits a run has pushed: what the array holds beyond what it held at the start.\<close>

definition pushed :: "'m migration_result \<Rightarrow> 'm pass_state \<Rightarrow> replacement list" where
  "pushed res st = drop (length (replacements res)) (replacements (result st))"

text \<open>
  The contract of the synthesizer towards the import manager: it registers the imports
  it needs and removes none.
\<close>

definition sendsNoRemoval :: "('m, 'c, 'p) externals \<Rightarrow> bool" where
  "sendsNoRemoval ext =
    (\<forall>n md checker im res. list_all (\<lambda>call. \<not> isRemoveImport call)
        (snd (convertToSignalInput ext n md checker im res)))"

text \<open>
  Where an edit applies: its file and the characters from \<^verbatim>\<open>position\<close> to \<^verbatim>\<open>end\<close>. The range
  of the replacement of a whole declaration is the range of its node in the project file
  of its source file.
\<close>

type_synonym edit_range = "project_file \<times> nat \<times> nat"

definition editRange :: "replacement \<Rightarrow> edit_range" where
  "editRange r = (rFile r, position (rUpdate r), endPos (rUpdate r))"

definition fullRange :: "('m, 'c, 'p) externals \<Rightarrow> 'p \<Rightarrow> input_descriptor \<times> 'm option \<Rightarrow> edit_range" where
  "fullRange ext info d =
    (projectFile ext (getSourceFile (node (fst d))) info, getStart (node (fst d)), getEnd (node (fst d)))"

text \<open>The edits the annotator returns for a declaration when the skip path asks for them.\<close>

definition todoEditsFor ::
  "('m, 'c, 'p) externals \<Rightarrow> migration_host \<Rightarrow> 'p \<Rightarrow> (input_descriptor \<rightharpoonup> classification) \<Rightarrow>
   input_descriptor \<times> 'm option \<Rightarrow> replacement list" where
  "todoEditsFor ext host info knownInputs d =
    (case knownInputs (fst d) of
       None \<Rightarrow> []
     | Some inputInfo \<Rightarrow>
         if isIncompatible inputInfo \<and> insertTodosForSkippedFields (config host)
         then insertTodoForIncompatibility ext (node (fst d)) info inputInfo else [])"

text \<open>
  The contract of the synthesizer towards the replacements: what it returns does not
  depend on the edits pushed so far.
\<close>

definition ignoresReplacements :: "('m, 'c, 'p) externals \<Rightarrow> bool" where
  "ignoresReplacements ext =
    (\<forall>n md checker im res res'. sourceInputs res = sourceInputs res' \<longrightarrow>
        convertToSignalInput ext n md checker im res = convertToSignalInput ext n md checker im res')"

text \<open>
  The edits of a run with TODOs, told from those of the run without: the whole-declaration
  edits \<open>ms\<close>, one for each compatible declaration, with the annotator's edits for each
  incompatible declaration put in at its place in the registry.
\<close>

fun weaveTodos ::
  "('m, 'c, 'p) externals \<Rightarrow> 'p \<Rightarrow> (input_descriptor \<rightharpoonup> classification) \<Rightarrow>
   (input_descriptor \<times> 'm option) list \<Rightarrow> replacement list \<Rightarrow> replacement list" where
  "weaveTodos ext info knownInputs [] ms = ms"
| "weaveTodos ext info knownInputs (d # ds) ms =
    (case knownInputs (fst d) of
       None \<Rightarrow> ms
     | Some inputInfo \<Rightarrow>
         if isIncompatible inputInfo
         then insertTodoForIncompatibility ext (node (fst d)) info inputInfo @
                weaveTodos ext info knownInputs ds ms
         else (case ms of [] \<Rightarrow> [] | m # ms' \<Rightarrow> m # weaveTodos ext info knownInputs ds ms'))"

text \<open>Two states of the pass that differ at most in the replacements pushed.\<close>

definition sameButReplacements :: "'m pass_state \<Rightarrow> 'm pass_state \<Rightarrow> bool" where
  "sameButReplacements s t =
    (importManager s = importManager t
     \<and> filesWithMigratedInputs s = filesWithMigratedInputs t
     \<and> filesWithIncompatibleInputs s = filesWithIncompatibleInputs t
     \<and> sourceInputs (result s) = sourceInputs (result t))"

text \<open>
  Two edits overlap when they are in the same file and neither ends before the other
  starts. An insertion (\<^verbatim>\<open>position = end\<close>) at the border of a range does not overlap it, and
  two insertions at the same place do not overlap; an insertion inside a range does.
\<close>

fun overlap :: "edit_range \<Rightarrow> edit_range \<Rightarrow> bool" where
  "overlap (f, p, e) (g, q, d) = (f = g \<and> p < d \<and> q < e)"

fun nonOverlapping :: "edit_range list \<Rightarrow> bool" where
  "nonOverlapping [] = True"
| "nonOverlapping (a # as) = (list_all (\<lambda>b. \<not> overlap a b) as \<and> nonOverlapping as)"

text \<open>The ranges of the declarations of a registry, and of the annotator's edits for them.\<close>

definition declarationRanges ::
  "('m, 'c, 'p) externals \<Rightarrow> 'p \<Rightarrow> (input_descriptor \<times> 'm option) list \<Rightarrow> edit_range list" where
  "declarationRanges ext info xs = map (fullRange ext info) xs"

definition todoRanges ::
  "('m, 'c, 'p) externals \<Rightarrow> migration_host \<Rightarrow> 'p \<Rightarrow> (input_descriptor \<rightharpoonup> classification) \<Rightarrow>
   (input_descriptor \<times> 'm option) list \<Rightarrow> edit_range list" where
  "todoRanges ext host info knownInputs xs =
    concat (map (\<lambda>d. map editRange (todoEditsFor ext host info knownInputs d)) xs)"

text \<open>The declarations of a file occupy ranges that do not overlap.\<close>

definition declarationsDisjoint ::
  "('m, 'c, 'p) externals \<Rightarrow> 'p \<Rightarrow> (input_descriptor \<times> 'm option) list \<Rightarrow> bool" where
  "declarationsDisjoint ext info xs = nonOverlapping (declarationRanges ext info xs)"

text \<open>Every edit of the annotator ends before its own declaration starts, or starts after it ends.\<close>

definition todosOutsideOwnDeclaration ::
  "('m, 'c, 'p) externals \<Rightarrow> migration_host \<Rightarrow> 'p \<Rightarrow> (input_descriptor \<rightharpoonup> classification) \<Rightarrow>
   (input_descriptor \<times> 'm option) list \<Rightarrow> bool" where
  "todosOutsideOwnDeclaration ext host info knownInputs xs =
    list_all (\<lambda>d. list_all
        (\<lambda>e. endPos (rUpdate e) < getStart (node (fst d)) \<or> getEnd (node (fst d)) < position (rUpdate e))
        (todoEditsFor ext host info knownInputs d)) xs"

text \<open>No edit of the annotator overlaps the range of a declaration of the registry, its own or another.\<close>

definition todosOutsideDeclarations ::
  "('m, 'c, 'p) externals \<Rightarrow> migration_host \<Rightarrow> 'p \<Rightarrow> (input_descriptor \<rightharpoonup> classification) \<Rightarrow>
   (input_descriptor \<times> 'm option) list \<Rightarrow> bool" where
  "todosOutsideDeclarations ext host info knownInputs xs =
    list_all (\<lambda>e. list_all (\<lambda>r. \<not> overlap e r) (declarationRanges ext info xs))
      (todoRanges ext host info knownInputs xs)"

text \<open>The edits of the annotator do not overlap one another.\<close>

definition todosDisjoint ::
  "('m, 'c, 'p) externals \<Rightarrow> migration_host \<Rightarrow> 'p \<Rightarrow> (input_descriptor \<rightharpoonup> classification) \<Rightarrow>
   (input_descriptor \<times> 'm option) list \<Rightarrow> bool" where
  "todosDisjoint ext host info knownInputs xs = nonOverlapping (todoRanges ext host info knownInputs xs)"

section \<open>A small program the properties are tried on\<close>

text \<open>
  File \<^verbatim>\<open>a.ts\<close> declares the inputs A (compatible), B (incompatible), D (compatible) and the
  accessor G; file \<^verbatim>\<open>b.ts\<close> declares the compatible input C and file \<^verbatim>\<open>c.ts\<close> the
  incompatible input E. The synthesizer of the example
  registers the import of \<^verbatim>\<open>input\<close>, and the annotator inserts one comment line at the start
  of the declaration.
\<close>

definition nodeA :: input_node where
  "nodeA = \<lparr>getSourceFile = ''a.ts'', kind = PropertyDeclaration, getStart = 10, getEnd = 20\<rparr>"

definition nodeB :: input_node where
  "nodeB = \<lparr>getSourceFile = ''a.ts'', kind = PropertyDeclaration, getStart = 30, getEnd = 40\<rparr>"

definition nodeC :: input_node where
  "nodeC = \<lparr>getSourceFile = ''b.ts'', kind = PropertyDeclaration, getStart = 5, getEnd = 15\<rparr>"

definition nodeD :: input_node where
  "nodeD = \<lparr>getSourceFile = ''a.ts'', kind = PropertyDeclaration, getStart = 70, getEnd = 80\<rparr>"

definition nodeG :: input_node where
  "nodeG = \<lparr>getSourceFile = ''a.ts'', kind = GetAccessor, getStart = 50, getEnd = 60\<rparr>"

definition nodeE :: input_node where
  "nodeE = \<lparr>getSourceFile = ''c.ts'', kind = PropertyDeclaration, getStart = 0, getEnd = 8\<rparr>"

definition inputA :: input_descriptor where
  "inputA = \<lparr>key = ''A'', node = nodeA\<rparr>"

definition inputB :: input_descriptor where
  "inputB = \<lparr>key = ''B'', node = nodeB\<rparr>"

definition inputC :: input_descriptor where
  "inputC = \<lparr>key = ''C'', node = nodeC\<rparr>"

definition inputD :: input_descriptor where
  "inputD = \<lparr>key = ''D'', node = nodeD\<rparr>"

definition inputG :: input_descriptor where
  "inputG = \<lparr>key = ''G'', node = nodeG\<rparr>"

definition inputE :: input_descriptor where
  "inputE = \<lparr>key = ''E'', node = nodeE\<rparr>"

definition exKnownInputs :: "input_descriptor \<rightharpoonup> classification" where
  "exKnownInputs =
    [inputA \<mapsto> Compatible, inputB \<mapsto> Incompatible 1, inputC \<mapsto> Compatible,
     inputD \<mapsto> Compatible, inputG \<mapsto> Compatible, inputE \<mapsto> Incompatible 2]"

definition exConvert ::
  "input_node \<Rightarrow> string \<Rightarrow> unit \<Rightarrow> import_manager \<Rightarrow> string migration_result \<Rightarrow> string \<times> im_call list" where
  "exConvert n md checker im res =
    (''input'' @ md, [RegisterImport (getSourceFile n) ''input'' ''@angular/core''])"

definition exTodo :: "input_node \<Rightarrow> unit \<Rightarrow> classification \<Rightarrow> replacement list" where
  "exTodo n info inputInfo =
    [Replacement (getSourceFile n) (TextUpdate (getStart n) (getStart n) ''// TODO: Skipped for migration'')]"

definition exExternals :: "(string, unit, unit) externals" where
  "exExternals =
    \<lparr>convertToSignalInput = exConvert, insertTodoForIncompatibility = exTodo,
     projectFile = (\<lambda>sf info. sf)\<rparr>"

definition exHost :: "bool \<Rightarrow> migration_host" where
  "exHost flag = \<lparr>config = \<lparr>insertTodosForSkippedFields = flag\<rparr>\<rparr>"

definition exResult :: "(input_descriptor \<times> string option) list \<Rightarrow> string migration_result" where
  "exResult xs = \<lparr>sourceInputs = xs, replacements = []\<rparr>"

definition exRegistry :: "(input_descriptor \<times> string option) list" where
  "exRegistry = [(inputA, Some ''<T>''), (inputB, None), (inputC, Some ''<U>''), (inputD, Some ''<V>'')]"

definition exMigratedOnly :: "(input_descriptor \<times> string option) list" where
  "exMigratedOnly = [(inputA, Some ''<T>''), (inputD, Some ''<V>''), (inputC, Some ''<U>'')]"

text \<open>The state after the first loop over \<open>exRegistry\<close> with TODOs on, and after the pass.\<close>

definition exAfterLoop :: "string pass_state" where
  "exAfterLoop =
    \<lparr>result = \<lparr>sourceInputs = exRegistry, replacements =
        [Replacement ''a.ts'' (TextUpdate 10 20 ''input<T>''),
         Replacement ''a.ts'' (TextUpdate 30 30 ''// TODO: Skipped for migration''),
         Replacement ''b.ts'' (TextUpdate 5 15 ''input<U>''),
         Replacement ''a.ts'' (TextUpdate 70 80 ''input<V>'')]\<rparr>,
     importManager =
        [RegisterImport ''a.ts'' ''input'' ''@angular/core'',
         RegisterImport ''b.ts'' ''input'' ''@angular/core'',
         RegisterImport ''a.ts'' ''input'' ''@angular/core''],
     filesWithMigratedInputs = [''a.ts'', ''b.ts''],
     filesWithIncompatibleInputs = {''a.ts''}\<rparr>"

definition exFinal :: "string pass_state" where
  "exFinal = exAfterLoop\<lparr>importManager :=
     importManager exAfterLoop @ [RemoveImport ''b.ts'' ''Input'' ''@angular/core'']\<rparr>"

definition exTwoSkipped :: "(input_descriptor \<times> string option) list" where
  "exTwoSkipped = [(inputB, None), (inputA, Some ''<T>''), (inputE, None)]"

text \<open>
  An annotator that puts its comment some way above the declaration: outside the
  declaration it is for, but possibly inside the one before.
\<close>

definition exTodoAbove :: "input_node \<Rightarrow> unit \<Rightarrow> classification \<Rightarrow> replacement list" where
  "exTodoAbove n info inputInfo =
    [Replacement (getSourceFile n)
       (TextUpdate (getStart n - 18) (getStart n - 12) ''// TODO: Skipped for migration'')]"

definition exExternalsAbove :: "(string, unit, unit) externals" where
  "exExternalsAbove = exExternals\<lparr>insertTodoForIncompatibility := exTodoAbove\<rparr>"

definition exNeighbours :: "(input_descriptor \<times> string option) list" where
  "exNeighbours = [(inputA, Some ''<T>''), (inputB, None)]"

text \<open>An annotator whose two edits, both above the declaration, run into each other.\<close>

definition exTodoTwice :: "input_node \<Rightarrow> unit \<Rightarrow> classification \<Rightarrow> replacement list" where
  "exTodoTwice n info inputInfo =
    [Replacement (getSourceFile n) (TextUpdate (getStart n - 8) (getStart n - 2) ''// TODO:''),
     Replacement (getSourceFile n) (TextUpdate (getStart n - 5) (getStart n - 1) ''// Skipped'')]"

definition exExternalsTwice :: "(string, unit, unit) externals" where
  "exExternalsTwice = exExternals\<lparr>insertTodoForIncompatibility := exTodoTwice\<rparr>"

section \<open>The loop body and the first loop, case by case\<close>

lemma processInput_skip:
  assumes "knownInputs input = Some inputInfo" and "isIncompatible inputInfo"
  shows "processInput ext host checker knownInputs info st input metadata =
    Inr (skipPath ext host info st input inputInfo)"
  using assms by (simp add: processInput_def)

lemma processInput_migrate:
  assumes "knownInputs input = Some inputInfo" and "\<not> isIncompatible inputInfo"
    and "\<not> isAccessor (node input)"
  shows "processInput ext host checker knownInputs info st input (Some md) =
    Inr (migratePath ext checker info st input md)"
  using assms by (simp add: processInput_def)

lemma processInput_Inr_cases:
  assumes "processInput ext host checker knownInputs info st input metadata = Inr st'"
  obtains (skip) inputInfo where "knownInputs input = Some inputInfo" "isIncompatible inputInfo"
      "st' = skipPath ext host info st input inputInfo"
  | (migrate) inputInfo md where "knownInputs input = Some inputInfo" "\<not> isIncompatible inputInfo"
      "metadata = Some md" "\<not> isAccessor (node input)"
      "st' = migratePath ext checker info st input md"
  using assms by (auto simp: processInput_def split: option.splits if_splits)

lemma processInput_Inl_cases:
  assumes "processInput ext host checker knownInputs info st input metadata = Inl (err, st')"
  obtains (unknown) "knownInputs input = None" "st' = st"
      "err = TypeError ''Cannot read properties of undefined''"
  | (no_metadata) inputInfo where "knownInputs input = Some inputInfo" "\<not> isIncompatible inputInfo"
      "metadata = None" "st' = st"
      "err = AssertionError ''Expected metadata to exist for input isn't marked incompatible.''"
  | (accessor) inputInfo md where "knownInputs input = Some inputInfo" "\<not> isIncompatible inputInfo"
      "metadata = Some md" "isAccessor (node input)" "st' = st"
      "err = AssertionError ''Accessor inputs are incompatible.''"
  using assms by (auto simp: processInput_def split: option.splits if_splits)

lemma skipPath_simps:
  "importManager (skipPath ext host info st input inputInfo) = importManager st"
  "filesWithMigratedInputs (skipPath ext host info st input inputInfo) = filesWithMigratedInputs st"
  "filesWithIncompatibleInputs (skipPath ext host info st input inputInfo) =
     insert (getSourceFile (node input)) (filesWithIncompatibleInputs st)"
  "sourceInputs (result (skipPath ext host info st input inputInfo)) = sourceInputs (result st)"
  "replacements (result (skipPath ext host info st input inputInfo)) =
     replacements (result st) @
       (if insertTodosForSkippedFields (config host)
        then insertTodoForIncompatibility ext (node input) info inputInfo else [])"
  by (simp_all add: skipPath_def Let_def)

lemma migratePath_simps:
  "importManager (migratePath ext checker info st input md) =
     importManager st @ snd (convertToSignalInput ext (node input) md checker (importManager st) (result st))"
  "filesWithMigratedInputs (migratePath ext checker info st input md) =
     setAdd (filesWithMigratedInputs st) (getSourceFile (node input))"
  "filesWithIncompatibleInputs (migratePath ext checker info st input md) = filesWithIncompatibleInputs st"
  "sourceInputs (result (migratePath ext checker info st input md)) = sourceInputs (result st)"
  "replacements (result (migratePath ext checker info st input md)) =
     replacements (result st) @
       [Replacement (projectFile ext (getSourceFile (node input)) info)
          (TextUpdate (getStart (node input)) (getEnd (node input))
             (fst (convertToSignalInput ext (node input) md checker (importManager st) (result st))))]"
  by (simp_all add: migratePath_def Let_def)

lemma migrateLoop_append:
  "migrateLoop ext host checker knownInputs info st (xs @ ys) =
    (case migrateLoop ext host checker knownInputs info st xs of
       Inl err \<Rightarrow> Inl err
     | Inr st' \<Rightarrow> migrateLoop ext host checker knownInputs info st' ys)"
  by (induction xs arbitrary: st) (auto split: sum.splits)

lemma migrateLoop_Inr_split:
  assumes "migrateLoop ext host checker knownInputs info st (pre @ (input, metadata) # post) = Inr st'"
  obtains sa sb where "migrateLoop ext host checker knownInputs info st pre = Inr sa"
    "processInput ext host checker knownInputs info sa input metadata = Inr sb"
    "migrateLoop ext host checker knownInputs info sb post = Inr st'"
  using assms by (auto simp: migrateLoop_append split: sum.splits)

lemma migrateLoop_Inl_split:
  assumes "migrateLoop ext host checker knownInputs info st xs = Inl (err, st')"
  obtains pre input metadata post where "xs = pre @ (input, metadata) # post"
    "migrateLoop ext host checker knownInputs info st pre = Inr st'"
    "processInput ext host checker knownInputs info st' input metadata = Inl (err, st')"
  using assms
proof (induction xs arbitrary: st thesis)
  case Nil
  then show ?case by simp
next
  case (Cons x xs)
  obtain input metadata where x: "x = (input, metadata)" by (cases x)
  show ?case
  proof (cases "processInput ext host checker knownInputs info st input metadata")
    case (Inl e)
    with Cons.prems(2) x have e: "e = (err, st')" by simp
    from Inl e have "st' = st" by (cases e) (auto elim: processInput_Inl_cases)
    with Inl e x show ?thesis using Cons.prems(1)[of "[]" input metadata xs] by simp
  next
    case (Inr s)
    with Cons.prems(2) x have "migrateLoop ext host checker knownInputs info s xs = Inl (err, st')" by simp
    then obtain pre i m post where p: "xs = pre @ (i, m) # post"
      "migrateLoop ext host checker knownInputs info s pre = Inr st'"
      "processInput ext host checker knownInputs info st' i m = Inl (err, st')"
      using Cons.IH by blast
    show ?thesis using Cons.prems(1)[of "(input, metadata) # pre" i m post] p Inr x by simp
  qed
qed

lemmas example_defs =
  nodeA_def nodeB_def nodeC_def nodeD_def nodeG_def inputA_def inputB_def inputC_def inputD_def
  inputG_def exKnownInputs_def exConvert_def exTodo_def exExternals_def exHost_def exResult_def
  exRegistry_def exMigratedOnly_def nodeE_def inputE_def exTwoSkipped_def exTodoAbove_def
  exExternalsAbove_def exNeighbours_def exTodoTwice_def exExternalsTwice_def

lemmas run_defs =
  pass6__migrateInputDeclarations_def initialState_def processInput_def skipPath_def migratePath_def
  setAdd_def isAccessor_def removeImport_def Let_def

lemma exRegistry_loop:
  "migrateLoop exExternals (exHost True) () exKnownInputs () (initialState (exResult exRegistry) [])
     exRegistry = Inr exAfterLoop"
  by (simp add: run_defs example_defs exAfterLoop_def)

lemma exRegistry_pass:
  "pass6__migrateInputDeclarations exExternals (exHost True) () (exResult exRegistry) exKnownInputs [] ()
     = Inr exFinal"
  by (simp add: run_defs example_defs exAfterLoop_def exFinal_def)

lemma exExternals_sendsNoRemoval: "sendsNoRemoval exExternals"
  by (simp add: sendsNoRemoval_def exExternals_def exConvert_def)

section \<open>What the two loops compute\<close>

lemma set_setAdd: "set (setAdd xs x) = insert x (set xs)"
  by (auto simp: setAdd_def)

lemma distinct_setAdd: "distinct xs \<Longrightarrow> distinct (setAdd xs x)"
  by (simp add: setAdd_def)

lemma processInput_Inr_class:
  assumes "processInput ext host checker knownInputs info st input metadata = Inr st'"
  shows "incompatibleInput knownInputs input \<noteq> compatibleInput knownInputs input"
  using assms
  by (auto simp: processInput_def incompatibleInput_def compatibleInput_def split: option.splits)

lemma processInput_incompatible_files:
  assumes "processInput ext host checker knownInputs info st input metadata = Inr st'"
  shows "filesWithIncompatibleInputs st' =
    filesWithIncompatibleInputs st \<union>
      (if incompatibleInput knownInputs input then {getSourceFile (node input)} else {})"
  using assms
  by (elim processInput_Inr_cases) (simp_all add: skipPath_simps migratePath_simps incompatibleInput_def)

lemma processInput_migrated_files:
  assumes "processInput ext host checker knownInputs info st input metadata = Inr st'"
  shows "set (filesWithMigratedInputs st') =
    set (filesWithMigratedInputs st) \<union>
      (if compatibleInput knownInputs input then {getSourceFile (node input)} else {})"
  using assms
  by (elim processInput_Inr_cases)
    (simp_all add: skipPath_simps migratePath_simps compatibleInput_def set_setAdd)

lemma processInput_distinct:
  assumes "processInput ext host checker knownInputs info st input metadata = Inr st'"
    and "distinct (filesWithMigratedInputs st)"
  shows "distinct (filesWithMigratedInputs st')"
  using assms
  by (elim processInput_Inr_cases) (simp_all add: skipPath_simps migratePath_simps distinct_setAdd)

lemma processInput_sourceInputs:
  assumes "processInput ext host checker knownInputs info st input metadata = Inr st'"
  shows "sourceInputs (result st') = sourceInputs (result st)"
  using assms
  by (elim processInput_Inr_cases) (simp_all add: skipPath_simps migratePath_simps)

lemma migrateLoop_incompatible_files:
  assumes "migrateLoop ext host checker knownInputs info st xs = Inr st'"
  shows "filesWithIncompatibleInputs st' =
    filesWithIncompatibleInputs st \<union>
      {getSourceFile (node (fst d)) | d. d \<in> set xs \<and> incompatibleInput knownInputs (fst d)}"
  using assms
proof (induction xs arbitrary: st)
  case Nil
  then show ?case by simp
next
  case (Cons x xs)
  obtain input metadata where x: "x = (input, metadata)" by (cases x)
  from Cons.prems x obtain s where
    s: "processInput ext host checker knownInputs info st input metadata = Inr s"
    and r: "migrateLoop ext host checker knownInputs info s xs = Inr st'"
    by (auto split: sum.splits)
  show ?case
    unfolding Cons.IH [OF r] processInput_incompatible_files [OF s] using x by auto
qed

lemma migrateLoop_migrated_files:
  assumes "migrateLoop ext host checker knownInputs info st xs = Inr st'"
  shows "set (filesWithMigratedInputs st') =
    set (filesWithMigratedInputs st) \<union>
      {getSourceFile (node (fst d)) | d. d \<in> set xs \<and> compatibleInput knownInputs (fst d)}"
  using assms
proof (induction xs arbitrary: st)
  case Nil
  then show ?case by simp
next
  case (Cons x xs)
  obtain input metadata where x: "x = (input, metadata)" by (cases x)
  from Cons.prems x obtain s where
    s: "processInput ext host checker knownInputs info st input metadata = Inr s"
    and r: "migrateLoop ext host checker knownInputs info s xs = Inr st'"
    by (auto split: sum.splits)
  show ?case
    unfolding Cons.IH [OF r] processInput_migrated_files [OF s] using x by auto
qed

lemma migrateLoop_distinct:
  assumes "migrateLoop ext host checker knownInputs info st xs = Inr st'"
    and "distinct (filesWithMigratedInputs st)"
  shows "distinct (filesWithMigratedInputs st')"
  using assms
proof (induction xs arbitrary: st)
  case Nil
  then show ?case by simp
next
  case (Cons x xs)
  obtain input metadata where x: "x = (input, metadata)" by (cases x)
  from Cons.prems x obtain s where
    s: "processInput ext host checker knownInputs info st input metadata = Inr s"
    and r: "migrateLoop ext host checker knownInputs info s xs = Inr st'"
    by (auto split: sum.splits)
  from Cons.IH [OF r] processInput_distinct [OF s Cons.prems(2)] show ?case by simp
qed

lemma removeLoop_eq:
  "removeLoop incompatibleFiles im files =
    im @ map (\<lambda>file. RemoveImport file ''Input'' ''@angular/core'')
           (filter (\<lambda>file. file \<notin> incompatibleFiles) files)"
  by (induction files arbitrary: im) (simp_all add: removeImport_def)

lemma issued_append: "issued im (im @ cs) = cs"
  by (simp add: issued_def)

lemma pass6_Inr:
  assumes "pass6__migrateInputDeclarations ext host checker res knownInputs im info = Inr st'"
  obtains st1 where
    "migrateLoop ext host checker knownInputs info (initialState res im) (sourceInputs res) = Inr st1"
    "st' = st1\<lparr>importManager := importManager st1 @
        map (\<lambda>file. RemoveImport file ''Input'' ''@angular/core'')
          (filter (\<lambda>file. file \<notin> filesWithIncompatibleInputs st1) (filesWithMigratedInputs st1))\<rparr>"
  using assms
  by (auto simp: pass6__migrateInputDeclarations_def Let_def removeLoop_eq split: sum.splits)

lemma pass6_Inl:
  "(pass6__migrateInputDeclarations ext host checker res knownInputs im info = Inl e) =
   (migrateLoop ext host checker knownInputs info (initialState res im) (sourceInputs res) = Inl e)"
  by (auto simp: pass6__migrateInputDeclarations_def Let_def split: sum.splits)

lemma filter_eq_distinct_le_1: "distinct xs \<Longrightarrow> length (filter (\<lambda>x. x = a) xs) \<le> Suc 0"
  by (induction xs) (auto simp: filter_empty_conv)

lemma removals_of_file:
  "filter (isRemoveImportOf F) (map (\<lambda>file. RemoveImport file symbol moduleName) files) =
   map (\<lambda>file. RemoveImport file symbol moduleName) (filter (\<lambda>file. file = F) files)"
  by (induction files) auto

lemma processInput_importManager:
  assumes "sendsNoRemoval ext"
  shows "\<exists>cs. importManager (outcomeState (processInput ext host checker knownInputs info st input metadata))
      = importManager st @ cs \<and> list_all (\<lambda>call. \<not> isRemoveImport call) cs"
proof (cases "processInput ext host checker knownInputs info st input metadata")
  case (Inl e)
  obtain err s where e: "e = (err, s)" by (cases e)
  with Inl have "s = st" by (auto elim: processInput_Inl_cases)
  with Inl e show ?thesis by simp
next
  case (Inr s)
  then show ?thesis
  proof (cases rule: processInput_Inr_cases)
    case (skip inputInfo)
    with Inr show ?thesis by (simp add: skipPath_simps)
  next
    case (migrate inputInfo md)
    with Inr assms show ?thesis by (simp add: migratePath_simps sendsNoRemoval_def)
  qed
qed

lemma migrateLoop_importManager:
  assumes "sendsNoRemoval ext"
  shows "\<exists>cs. importManager (outcomeState (migrateLoop ext host checker knownInputs info st xs))
      = importManager st @ cs \<and> list_all (\<lambda>call. \<not> isRemoveImport call) cs"
proof (induction xs arbitrary: st)
  case Nil
  then show ?case by simp
next
  case (Cons x xs)
  obtain input metadata where x: "x = (input, metadata)" by (cases x)
  from processInput_importManager [OF assms] obtain cs where
    cs: "importManager (outcomeState (processInput ext host checker knownInputs info st input metadata))
      = importManager st @ cs" "list_all (\<lambda>call. \<not> isRemoveImport call) cs" by blast
  show ?case
  proof (cases "processInput ext host checker knownInputs info st input metadata")
    case (Inl e)
    with cs x show ?thesis by auto
  next
    case (Inr s)
    from Cons.IH [of s] obtain ds where
      ds: "importManager (outcomeState (migrateLoop ext host checker knownInputs info s xs))
        = importManager s @ ds" "list_all (\<lambda>call. \<not> isRemoveImport call) ds" by blast
    from Inr cs have "importManager s = importManager st @ cs" by simp
    with ds cs(2) Inr x show ?thesis
      by (intro exI [of _ "cs @ ds"]) simp
  qed
qed

text \<open>
  The pass returns exactly when the classifier kept its contract: every declaration of the
  registry has a verdict, and no compatible one lacks metadata or is an accessor.
\<close>

lemma processInput_returns_iff:
  "(\<exists>st'. processInput ext host checker knownInputs info st input metadata = Inr st') =
   (knownInputs input \<noteq> None \<and> \<not> contractViolation knownInputs (input, metadata))"
  by (auto simp: processInput_def contractViolation_def compatibleInput_def
      split: option.splits if_splits)

lemma migrateLoop_returns_iff:
  "(\<exists>st'. migrateLoop ext host checker knownInputs info st xs = Inr st') =
   (\<forall>d \<in> set xs. knownInputs (fst d) \<noteq> None \<and> \<not> contractViolation knownInputs d)"
proof (induction xs arbitrary: st)
  case Nil
  then show ?case by simp
next
  case (Cons x xs)
  obtain input metadata where x: "x = (input, metadata)" by (cases x)
  show ?case
  proof (cases "processInput ext host checker knownInputs info st input metadata")
    case (Inl e)
    then have "\<not> (\<exists>st'. processInput ext host checker knownInputs info st input metadata = Inr st')"
      by simp
    then have "\<not> (knownInputs input \<noteq> None \<and> \<not> contractViolation knownInputs (input, metadata))"
      unfolding processInput_returns_iff .
    with Inl x show ?thesis by auto
  next
    case (Inr s)
    then have "\<exists>st'. processInput ext host checker knownInputs info st input metadata = Inr st'"
      by simp
    then have "knownInputs input \<noteq> None \<and> \<not> contractViolation knownInputs (input, metadata)"
      unfolding processInput_returns_iff .
    with Inr x Cons.IH [of s] show ?thesis by auto
  qed
qed

lemma pass6_returns_iff:
  "(\<exists>st'. pass6__migrateInputDeclarations ext host checker res knownInputs im info = Inr st') =
   (\<forall>d \<in> set (sourceInputs res). knownInputs (fst d) \<noteq> None \<and> \<not> contractViolation knownInputs d)"
proof -
  have "(\<exists>st'. pass6__migrateInputDeclarations ext host checker res knownInputs im info = Inr st') =
    (\<exists>st1. migrateLoop ext host checker knownInputs info (initialState res im) (sourceInputs res) = Inr st1)"
    by (auto simp: pass6__migrateInputDeclarations_def Let_def split: sum.splits)
  then show ?thesis unfolding migrateLoop_returns_iff .
qed

section \<open>The edits a run pushes\<close>

text \<open>The ranges of the edits pushed for one declaration.\<close>

lemma processInput_pushed:
  assumes "processInput ext host checker knownInputs info st input metadata = Inr st'"
  shows "\<exists>E. replacements (result st') = replacements (result st) @ E
    \<and> map editRange E =
        (if incompatibleInput knownInputs input
         then map editRange (todoEditsFor ext host info knownInputs (input, metadata))
         else [fullRange ext info (input, metadata)])"
  using assms
proof (cases rule: processInput_Inr_cases)
  case (skip inputInfo)
  then show ?thesis
    by (simp add: skipPath_simps incompatibleInput_def todoEditsFor_def)
next
  case (migrate inputInfo md)
  then show ?thesis
    by (simp add: migratePath_simps incompatibleInput_def fullRange_def editRange_def)
qed

lemma migrateLoop_pushed:
  assumes "migrateLoop ext host checker knownInputs info st xs = Inr st'"
  shows "\<exists>E. replacements (result st') = replacements (result st) @ E
    \<and> map editRange E =
        concat (map (\<lambda>d. if incompatibleInput knownInputs (fst d)
                         then map editRange (todoEditsFor ext host info knownInputs d)
                         else [fullRange ext info d]) xs)"
  using assms
proof (induction xs arbitrary: st)
  case Nil
  then show ?case by simp
next
  case (Cons x xs)
  obtain input metadata where x: "x = (input, metadata)" by (cases x)
  from Cons.prems x obtain s where
    s: "processInput ext host checker knownInputs info st input metadata = Inr s"
    and r: "migrateLoop ext host checker knownInputs info s xs = Inr st'"
    by (auto split: sum.splits)
  from processInput_pushed [OF s] obtain E1 where
    e1: "replacements (result s) = replacements (result st) @ E1"
      "map editRange E1 =
        (if incompatibleInput knownInputs input
         then map editRange (todoEditsFor ext host info knownInputs (input, metadata))
         else [fullRange ext info (input, metadata)])" by blast
  from Cons.IH [OF r] obtain E2 where
    e2: "replacements (result st') = replacements (result s) @ E2"
      "map editRange E2 =
        concat (map (\<lambda>d. if incompatibleInput knownInputs (fst d)
                         then map editRange (todoEditsFor ext host info knownInputs d)
                         else [fullRange ext info d]) xs)" by blast
  show ?case
    using e1 e2 x by (intro exI [of _ "E1 @ E2"]) simp
qed

lemma pushed_append: "replacements (result st) = replacements res @ E \<Longrightarrow> pushed res st = E"
  by (simp add: pushed_def)

lemma pass6_pushed:
  assumes "pass6__migrateInputDeclarations ext host checker res knownInputs im info = Inr st'"
  shows "map editRange (pushed res st') =
        concat (map (\<lambda>d. if incompatibleInput knownInputs (fst d)
                         then map editRange (todoEditsFor ext host info knownInputs d)
                         else [fullRange ext info d]) (sourceInputs res))"
proof -
  from assms obtain st1 where
    l: "migrateLoop ext host checker knownInputs info (initialState res im) (sourceInputs res) = Inr st1"
    and f: "st' = st1\<lparr>importManager := importManager st1 @
        map (\<lambda>file. RemoveImport file ''Input'' ''@angular/core'')
          (filter (\<lambda>file. file \<notin> filesWithIncompatibleInputs st1) (filesWithMigratedInputs st1))\<rparr>"
    by (rule pass6_Inr)
  from migrateLoop_pushed [OF l] obtain E where
    e: "replacements (result st1) = replacements res @ E"
      "map editRange E =
        concat (map (\<lambda>d. if incompatibleInput knownInputs (fst d)
                         then map editRange (todoEditsFor ext host info knownInputs d)
                         else [fullRange ext info d]) (sourceInputs res))"
    by (auto simp: initialState_def)
  from f e(1) have "pushed res st' = E" by (simp add: pushed_def)
  with e(2) show ?thesis by simp
qed

lemma migrateLoop_complete_class:
  assumes "migrateLoop ext host checker knownInputs info st xs = Inr st'" and "d \<in> set xs"
  shows "incompatibleInput knownInputs (fst d) \<noteq> compatibleInput knownInputs (fst d)"
  using assms
proof (induction xs arbitrary: st)
  case Nil
  then show ?case by simp
next
  case (Cons x xs)
  obtain input metadata where x: "x = (input, metadata)" by (cases x)
  from Cons.prems x obtain s where
    s: "processInput ext host checker knownInputs info st input metadata = Inr s"
    and r: "migrateLoop ext host checker knownInputs info s xs = Inr st'"
    by (auto split: sum.splits)
  show ?case
  proof (cases "d = x")
    case True
    with processInput_Inr_class [OF s] x show ?thesis by simp
  next
    case False
    with Cons.prems(2) have "d \<in> set xs" by simp
    with Cons.IH [OF r] show ?thesis .
  qed
qed

text \<open>With the option off, nothing of the annotator is used.\<close>

lemma skipPath_annotator_unused:
  assumes "\<not> insertTodosForSkippedFields (config host)"
  shows "skipPath (ext\<lparr>insertTodoForIncompatibility := annotator\<rparr>) host info st input inputInfo =
    skipPath ext host info st input inputInfo"
  using assms by (simp add: skipPath_def)

lemma migratePath_annotator_unused:
  "migratePath (ext\<lparr>insertTodoForIncompatibility := annotator\<rparr>) checker info st input md =
    migratePath ext checker info st input md"
  by (simp add: migratePath_def)

lemma processInput_annotator_unused:
  assumes "\<not> insertTodosForSkippedFields (config host)"
  shows "processInput (ext\<lparr>insertTodoForIncompatibility := annotator\<rparr>) host checker knownInputs info st input metadata =
    processInput ext host checker knownInputs info st input metadata"
  using assms
  by (simp add: processInput_def skipPath_annotator_unused migratePath_annotator_unused
      split: option.splits)

lemma migrateLoop_annotator_unused:
  assumes "\<not> insertTodosForSkippedFields (config host)"
  shows "migrateLoop (ext\<lparr>insertTodoForIncompatibility := annotator\<rparr>) host checker knownInputs info st xs =
    migrateLoop ext host checker knownInputs info st xs"
  by (induction xs arbitrary: st) (auto simp: processInput_annotator_unused [OF assms] split: sum.splits)

section \<open>Two runs that differ in the option for TODOs\<close>

lemma migratePath_same:
  assumes "ignoresReplacements ext" and "sameButReplacements s t"
  shows "sameButReplacements (migratePath ext checker info s input md) (migratePath ext checker info t input md)
    \<and> (\<exists>m. replacements (result (migratePath ext checker info s input md)) = replacements (result s) @ [m]
           \<and> replacements (result (migratePath ext checker info t input md)) = replacements (result t) @ [m])"
proof -
  from assms have "convertToSignalInput ext (node input) md checker (importManager s) (result s) =
      convertToSignalInput ext (node input) md checker (importManager t) (result t)"
    unfolding ignoresReplacements_def sameButReplacements_def by metis
  with assms(2) show ?thesis
    by (simp add: sameButReplacements_def migratePath_simps)
qed

lemma skipPath_same:
  assumes "sameButReplacements s t"
  shows "sameButReplacements (skipPath ext hostOff info s input inputInfo) (skipPath ext hostOn info t input inputInfo)"
  using assms by (simp add: sameButReplacements_def skipPath_simps)

lemma migrateLoop_same:
  assumes "ignoresReplacements ext" and "\<not> insertTodosForSkippedFields (config hostOff)"
    and "insertTodosForSkippedFields (config hostOn)" and "sameButReplacements s t"
  shows "case (migrateLoop ext hostOff checker knownInputs info s xs,
               migrateLoop ext hostOn checker knownInputs info t xs) of
      (Inr s', Inr t') \<Rightarrow> sameButReplacements s' t'
         \<and> (\<exists>ms. replacements (result s') = replacements (result s) @ ms
               \<and> replacements (result t') = replacements (result t) @ weaveTodos ext info knownInputs xs ms)
    | (Inl (e, s'), Inl (e', t')) \<Rightarrow> e = e' \<and> sameButReplacements s' t'
    | _ \<Rightarrow> False"
  using assms(4)
proof (induction xs arbitrary: s t)
  case Nil
  then show ?case by simp
next
  case (Cons x xs)
  obtain input metadata where x: "x = (input, metadata)" by (cases x)
  show ?case
  proof (cases "knownInputs input")
    case None
    with Cons.prems x show ?thesis by (simp add: processInput_def)
  next
    case (Some inputInfo)
    show ?thesis
    proof (cases "isIncompatible inputInfo")
      case True
      let ?s1 = "skipPath ext hostOff info s input inputInfo"
      let ?t1 = "skipPath ext hostOn info t input inputInfo"
      have sim: "sameButReplacements ?s1 ?t1" using Cons.prems by (rule skipPath_same)
      have rs: "replacements (result ?s1) = replacements (result s)"
        using assms(2) by (simp add: skipPath_simps)
      have rt: "replacements (result ?t1) = replacements (result t) @
          insertTodoForIncompatibility ext (node input) info inputInfo"
        using assms(3) by (simp add: skipPath_simps)
      from Cons.IH [OF sim] Some True x rs rt show ?thesis
        by (auto simp: processInput_skip split: sum.splits)
    next
      case False
      show ?thesis
      proof (cases metadata)
        case None
        with Some False Cons.prems x show ?thesis by (simp add: processInput_def)
      next
        case md: (Some md)
        show ?thesis
        proof (cases "isAccessor (node input)")
          case True
          with Some False md Cons.prems x show ?thesis by (simp add: processInput_def)
        next
          case acc: False
          let ?s1 = "migratePath ext checker info s input md"
          let ?t1 = "migratePath ext checker info t input md"
          from migratePath_same [OF assms(1) Cons.prems, of checker info input md] obtain m where
            sim: "sameButReplacements ?s1 ?t1"
            and rs: "replacements (result ?s1) = replacements (result s) @ [m]"
            and rt: "replacements (result ?t1) = replacements (result t) @ [m]"
            by blast
          have ps: "processInput ext hostOff checker knownInputs info s input metadata = Inr ?s1"
            using Some False md acc by (simp add: processInput_migrate)
          have pt: "processInput ext hostOn checker knownInputs info t input metadata = Inr ?t1"
            using Some False md acc by (simp add: processInput_migrate)
          from Cons.IH [OF sim] show ?thesis
            unfolding x migrateLoop.simps ps pt sum.case
            using Some False rs rt
            by (auto split: sum.splits)
        qed
      qed
    qed
  qed
qed

lemma sameButReplacements_refl: "sameButReplacements s s"
  by (simp add: sameButReplacements_def)

lemma pushed_without_todos:
  assumes "\<not> insertTodosForSkippedFields (config host)"
    and s: "pass6__migrateInputDeclarations ext host checker res knownInputs im info = Inr st'"
  shows "map editRange (pushed res st') =
    map (fullRange ext info) (filter (\<lambda>d. compatibleInput knownInputs (fst d)) (sourceInputs res))"
proof -
  from s obtain st1 where
    l: "migrateLoop ext host checker knownInputs info (initialState res im) (sourceInputs res) = Inr st1"
    by (rule pass6_Inr)
  have "concat (map (\<lambda>d. if incompatibleInput knownInputs (fst d)
                         then map editRange (todoEditsFor ext host info knownInputs d)
                         else [fullRange ext info d]) xs)
      = map (fullRange ext info) (filter (\<lambda>d. compatibleInput knownInputs (fst d)) xs)"
    if "\<forall>d \<in> set xs. incompatibleInput knownInputs (fst d) \<noteq> compatibleInput knownInputs (fst d)" for xs
    using that assms(1) by (induction xs) (auto simp: todoEditsFor_def split: option.splits)
  with migrateLoop_complete_class [OF l] pass6_pushed [OF s] show ?thesis by simp
qed

lemma pass6_keeps_import:
  assumes s: "pass6__migrateInputDeclarations ext host checker res knownInputs im info = Inr st'"
    and d: "d \<in> set (sourceInputs res)" "incompatibleInput knownInputs (fst d)"
  shows "RemoveImport (getSourceFile (node (fst d))) ''Input'' ''@angular/core'' \<notin>
    set (issued (importManager (outcomeState
          (migrateLoop ext host checker knownInputs info (initialState res im) (sourceInputs res))))
        (importManager st'))"
proof -
  from s obtain st1 where
    l: "migrateLoop ext host checker knownInputs info (initialState res im) (sourceInputs res) = Inr st1"
    and f: "st' = st1\<lparr>importManager := importManager st1 @
        map (\<lambda>file. RemoveImport file ''Input'' ''@angular/core'')
          (filter (\<lambda>file. file \<notin> filesWithIncompatibleInputs st1) (filesWithMigratedInputs st1))\<rparr>"
    by (rule pass6_Inr)
  have "getSourceFile (node (fst d)) \<in> filesWithIncompatibleInputs st1"
    unfolding migrateLoop_incompatible_files [OF l] using d by blast
  then show ?thesis
    unfolding l outcomeState.simps using f by (auto simp: issued_append)
qed

lemma exExternals_ignoresReplacements: "ignoresReplacements exExternals"
  by (simp add: ignoresReplacements_def exExternals_def exConvert_def)

section \<open>Edits that do not overlap\<close>

lemma overlap_sym: "overlap a b = overlap b a"
  by (cases a, cases b) auto

lemma nonOverlapping_sorted_wrt: "nonOverlapping rs = sorted_wrt (\<lambda>a b. \<not> overlap a b) rs"
  by (induction rs) (auto simp: list_all_iff)

lemma nonOverlapping_append:
  "nonOverlapping (as @ bs) =
    (nonOverlapping as \<and> nonOverlapping bs \<and> (\<forall>a \<in> set as. \<forall>b \<in> set bs. \<not> overlap a b))"
  by (simp add: nonOverlapping_sorted_wrt sorted_wrt_append)

lemma nonOverlapping_woven:
  assumes "nonOverlapping (map D xs)" and "nonOverlapping (concat (map T xs))"
    and "\<forall>e \<in> set (concat (map T xs)). \<forall>r \<in> set (map D xs). \<not> overlap e r"
  shows "nonOverlapping (concat (map (\<lambda>d. if c d then T d else [D d]) xs))"
  using assms
proof (induction xs)
  case Nil
  then show ?case by simp
next
  case (Cons d ds)
  let ?g = "\<lambda>d. if c d then T d else [D d]"
  have sub: "set (concat (map ?g ds)) \<subseteq> set (concat (map T ds)) \<union> set (map D ds)"
    by auto
  from Cons.prems have h1: "nonOverlapping (map D ds)" and h1c: "\<forall>r \<in> set (map D ds). \<not> overlap (D d) r"
    by (simp_all add: list_all_iff)
  from Cons.prems(2) have h3: "nonOverlapping (T d)" "nonOverlapping (concat (map T ds))"
    and h3c: "\<forall>a \<in> set (T d). \<forall>b \<in> set (concat (map T ds)). \<not> overlap a b"
    by (simp_all add: nonOverlapping_append)
  from Cons.prems(3) have h2: "\<forall>e \<in> set (concat (map T ds)). \<forall>r \<in> set (map D ds). \<not> overlap e r"
    and h2a: "\<forall>e \<in> set (T d). \<forall>r \<in> set (map D ds). \<not> overlap e r"
    and h2b: "\<forall>e \<in> set (concat (map T ds)). \<not> overlap e (D d)"
    by auto
  have rest: "nonOverlapping (concat (map ?g ds))"
    using Cons.IH [OF h1 h3(2) h2] .
  have cross: "\<forall>a \<in> set (?g d). \<forall>b \<in> set (concat (map ?g ds)). \<not> overlap a b"
  proof (intro ballI)
    fix a b assume a: "a \<in> set (?g d)" and b: "b \<in> set (concat (map ?g ds))"
    from b sub have b': "b \<in> set (concat (map T ds)) \<or> b \<in> set (map D ds)" by blast
    show "\<not> overlap a b"
    proof (cases "c d")
      case True
      with a have "a \<in> set (T d)" by simp
      with b' h3c h2a show ?thesis by blast
    next
      case False
      with a have "a = D d" by simp
      with b' h1c h2b show ?thesis using overlap_sym by blast
    qed
  qed
  have own: "nonOverlapping (?g d)"
    using h3(1) by simp
  show ?case
    using own rest cross by (simp add: nonOverlapping_append del: set_concat)
qed

lemma nonOverlapping_pushed_ranges:
  assumes "declarationsDisjoint ext info xs"
    and "todosOutsideDeclarations ext host info knownInputs xs"
    and "todosDisjoint ext host info knownInputs xs"
  shows "nonOverlapping (concat (map (\<lambda>d. if incompatibleInput knownInputs (fst d)
                         then map editRange (todoEditsFor ext host info knownInputs d)
                         else [fullRange ext info d]) xs))"
proof -
  let ?T = "\<lambda>d. map editRange (todoEditsFor ext host info knownInputs d)"
  from assms(1) have a: "nonOverlapping (map (fullRange ext info) xs)"
    by (simp add: declarationsDisjoint_def declarationRanges_def)
  from assms(3) have b: "nonOverlapping (concat (map ?T xs))"
    by (simp add: todosDisjoint_def todoRanges_def)
  from assms(2) have c: "\<forall>e \<in> set (concat (map ?T xs)). \<forall>r \<in> set (map (fullRange ext info) xs). \<not> overlap e r"
    unfolding todosOutsideDeclarations_def declarationRanges_def todoRanges_def list_all_iff .
  show ?thesis
    by (rule nonOverlapping_woven [where D = "fullRange ext info" and T = ?T
          and c = "\<lambda>d. incompatibleInput knownInputs (fst d)", OF a b c])
qed

lemma disjointness_prefix:
  assumes "declarationsDisjoint ext info (pre @ post)"
    and "todosOutsideDeclarations ext host info knownInputs (pre @ post)"
    and "todosDisjoint ext host info knownInputs (pre @ post)"
  shows "declarationsDisjoint ext info pre \<and> todosOutsideDeclarations ext host info knownInputs pre
    \<and> todosDisjoint ext host info knownInputs pre"
  using assms
  unfolding declarationsDisjoint_def todosOutsideDeclarations_def todosDisjoint_def
    declarationRanges_def todoRanges_def list_all_iff
  by (auto simp: nonOverlapping_append)

lemmas range_defs =
  declarationsDisjoint_def todosOutsideOwnDeclaration_def todosOutsideDeclarations_def
  todosDisjoint_def declarationRanges_def todoRanges_def todoEditsFor_def fullRange_def
  editRange_def pushed_def

section \<open>The skip path\<close>

text \<open>
  C6: the skip path, taken for an incompatible declaration, raises no error and leaves the
  import manager as it was: no command reaches it. It leaves \<^verbatim>\<open>filesWithMigratedInputs\<close>
  and the registry alone too; all it does is push the TODO edits, when the option is on,
  and add the owning file to \<^verbatim>\<open>filesWithIncompatibleInputs\<close>.
\<close>

theorem skip_path_frame:
  assumes "knownInputs input = Some inputInfo" and "isIncompatible inputInfo"
  shows "\<exists>st'. processInput ext host checker knownInputs info st input metadata = Inr st'
    \<and> importManager st' = importManager st
    \<and> filesWithMigratedInputs st' = filesWithMigratedInputs st
    \<and> sourceInputs (result st') = sourceInputs (result st)
    \<and> replacements (result st') = replacements (result st) @
         (if insertTodosForSkippedFields (config host)
          then insertTodoForIncompatibility ext (node input) info inputInfo else [])
    \<and> filesWithIncompatibleInputs st' =
         insert (getSourceFile (node input)) (filesWithIncompatibleInputs st)"
  using assms by (simp add: processInput_skip skipPath_simps)

theorem skip_path_frame_witness:
  "exKnownInputs inputB = Some (Incompatible 1) \<and> isIncompatible (Incompatible 1) \<and>
   processInput exExternals (exHost True) () exKnownInputs ()
      (initialState (exResult []) [RegisterImport ''a.ts'' ''Input'' ''@angular/core'']) inputB None =
     Inr \<lparr>result = \<lparr>sourceInputs = [], replacements =
             [Replacement ''a.ts'' (TextUpdate 30 30 ''// TODO: Skipped for migration'')]\<rparr>,
          importManager = [RegisterImport ''a.ts'' ''Input'' ''@angular/core''],
          filesWithMigratedInputs = [], filesWithIncompatibleInputs = {''a.ts''}\<rparr>"
proof -
  have k: "exKnownInputs inputB = Some (Incompatible 1)"
    by (simp add: example_defs)
  have i: "isIncompatible (Incompatible 1)" by simp
  from skip_path_frame [where knownInputs = exKnownInputs and input = inputB
      and inputInfo = "Incompatible 1" and ext = exExternals and host = "exHost True"
      and checker = "()" and info = "()" and metadata = None
      and st = "initialState (exResult []) [RegisterImport ''a.ts'' ''Input'' ''@angular/core'']", OF k i]
  obtain st' where s: "processInput exExternals (exHost True) () exKnownInputs ()
      (initialState (exResult []) [RegisterImport ''a.ts'' ''Input'' ''@angular/core'']) inputB None = Inr st'"
    and f: "importManager st' = [RegisterImport ''a.ts'' ''Input'' ''@angular/core'']"
      "filesWithMigratedInputs st' = []"
      "sourceInputs (result st') = []"
      "replacements (result st') = [Replacement ''a.ts'' (TextUpdate 30 30 ''// TODO: Skipped for migration'')]"
      "filesWithIncompatibleInputs st' = {''a.ts''}"
    by (auto simp: initialState_def example_defs)
  from f have "st' = \<lparr>result = \<lparr>sourceInputs = [], replacements =
             [Replacement ''a.ts'' (TextUpdate 30 30 ''// TODO: Skipped for migration'')]\<rparr>,
          importManager = [RegisterImport ''a.ts'' ''Input'' ''@angular/core''],
          filesWithMigratedInputs = [], filesWithIncompatibleInputs = {''a.ts''}\<rparr>"
    by (cases st', cases "result st'") simp
  with s k i show ?thesis by simp
qed

section \<open>The migrate path\<close>

text \<open>
  C4: for a compatible declaration with metadata whose node is no accessor, the migrate
  path pushes exactly one edit: its range is the whole declaration, from \<^verbatim>\<open>getStart\<close> to
  \<^verbatim>\<open>getEnd\<close>, in the project file of the declaration's source file, and its text is what
  \<^verbatim>\<open>convertToSignalInput\<close> returns for the node, the metadata, the checker and the import
  manager (and the result object, which the code passes as well).
\<close>

theorem migrate_path_one_edit:
  assumes "knownInputs input = Some inputInfo" and "\<not> isIncompatible inputInfo"
    and "\<not> isAccessor (node input)"
  shows "\<exists>st'. processInput ext host checker knownInputs info st input (Some md) = Inr st'
    \<and> replacements (result st') = replacements (result st) @
         [Replacement (projectFile ext (getSourceFile (node input)) info)
            (TextUpdate (getStart (node input)) (getEnd (node input))
               (fst (convertToSignalInput ext (node input) md checker (importManager st) (result st))))]"
  using assms by (simp add: processInput_migrate migratePath_simps)

theorem migrate_path_one_edit_witness:
  "exKnownInputs inputA = Some Compatible \<and> \<not> isIncompatible Compatible \<and> \<not> isAccessor (node inputA) \<and>
   (\<exists>st'. processInput exExternals (exHost True) () exKnownInputs ()
        (initialState (exResult [(inputA, Some ''<string>'')]) []) inputA (Some ''<string>'') = Inr st'
      \<and> replacements (result st') = [Replacement ''a.ts'' (TextUpdate 10 20 ''input<string>'')])"
proof -
  have k: "exKnownInputs inputA = Some Compatible"
    by (simp add: example_defs)
  have i: "\<not> isIncompatible Compatible" by simp
  have a: "\<not> isAccessor (node inputA)" by (simp add: isAccessor_def example_defs)
  from migrate_path_one_edit [where knownInputs = exKnownInputs and input = inputA
      and inputInfo = Compatible and ext = exExternals and host = "exHost True"
      and checker = "()" and info = "()" and md = "''<string>''"
      and st = "initialState (exResult [(inputA, Some ''<string>'')]) []", OF k i a]
  have "\<exists>st'. processInput exExternals (exHost True) () exKnownInputs ()
        (initialState (exResult [(inputA, Some ''<string>'')]) []) inputA (Some ''<string>'') = Inr st'
      \<and> replacements (result st') = [Replacement ''a.ts'' (TextUpdate 10 20 ''input<string>'')]"
    by (simp add: initialState_def example_defs)
  with k i a show ?thesis by blast
qed

section \<open>Assertion failures\<close>

lemma processInput_assertion_iff:
  "(\<exists>msg. processInput ext host checker knownInputs info st input metadata = Inl (AssertionError msg, st')) =
   (contractViolation knownInputs (input, metadata) \<and> st' = st)"
  by (auto simp: processInput_def contractViolation_def compatibleInput_def
      split: option.splits if_splits)

text \<open>
  C2: the pass throws an assertion failure exactly when the loop reaches a declaration
  that is classified compatible and has no metadata or is an accessor. The state at the
  throw is the state after the declarations before it: nothing is pushed for the
  declaration itself. On every other input no assertion fails.
\<close>

theorem assertion_failure_iff:
  "((\<exists>msg. processInput ext host checker knownInputs info st input metadata =
        Inl (AssertionError msg, st')) =
    (contractViolation knownInputs (input, metadata) \<and> st' = st))
   \<and>
   ((\<exists>msg. pass6__migrateInputDeclarations ext host checker res knownInputs im info =
        Inl (AssertionError msg, st')) =
    (\<exists>pre d post. sourceInputs res = pre @ d # post
       \<and> migrateLoop ext host checker knownInputs info (initialState res im) pre = Inr st'
       \<and> contractViolation knownInputs d))"
proof (intro conjI)
  show "(\<exists>msg. processInput ext host checker knownInputs info st input metadata =
        Inl (AssertionError msg, st')) =
    (contractViolation knownInputs (input, metadata) \<and> st' = st)"
    by (rule processInput_assertion_iff)
next
  let ?loop = "migrateLoop ext host checker knownInputs info"
  let ?st0 = "initialState res im"
  show "(\<exists>msg. pass6__migrateInputDeclarations ext host checker res knownInputs im info =
        Inl (AssertionError msg, st')) =
    (\<exists>pre d post. sourceInputs res = pre @ d # post \<and> ?loop ?st0 pre = Inr st'
       \<and> contractViolation knownInputs d)" (is "?L = ?R")
  proof
    assume ?L
    then obtain msg where
      "pass6__migrateInputDeclarations ext host checker res knownInputs im info =
         Inl (AssertionError msg, st')" ..
    then have "?loop ?st0 (sourceInputs res) = Inl (AssertionError msg, st')"
      by (simp add: pass6__migrateInputDeclarations_def Let_def split: sum.splits)
    then obtain pre input metadata post where p: "sourceInputs res = pre @ (input, metadata) # post"
      "?loop ?st0 pre = Inr st'"
      "processInput ext host checker knownInputs info st' input metadata = Inl (AssertionError msg, st')"
      by (rule migrateLoop_Inl_split)
    from p(3) have "contractViolation knownInputs (input, metadata)"
      using processInput_assertion_iff [of ext host checker knownInputs info st' input metadata st']
      by blast
    with p(1,2) show ?R by blast
  next
    assume ?R
    then obtain pre d post where p: "sourceInputs res = pre @ d # post" "?loop ?st0 pre = Inr st'"
      "contractViolation knownInputs d" by blast
    obtain input metadata where d: "d = (input, metadata)" by (cases d)
    from p(3) d obtain msg where
      m: "processInput ext host checker knownInputs info st' input metadata = Inl (AssertionError msg, st')"
      using processInput_assertion_iff [of ext host checker knownInputs info st' input metadata st']
      by blast
    have "?loop ?st0 (sourceInputs res) = Inl (AssertionError msg, st')"
      using p(1,2) d m by (simp add: migrateLoop_append)
    then show ?L
      by (auto simp: pass6__migrateInputDeclarations_def Let_def)
  qed
qed

theorem assertion_failure_iff_witness:
  "contractViolation exKnownInputs (inputG, Some ''x'') \<and>
   (\<exists>msg. pass6__migrateInputDeclarations exExternals (exHost True) ()
        (exResult [(inputA, Some ''<T>''), (inputG, Some ''x''), (inputB, None)]) exKnownInputs [] () =
      Inl (AssertionError msg,
        \<lparr>result = \<lparr>sourceInputs = [(inputA, Some ''<T>''), (inputG, Some ''x''), (inputB, None)],
                    replacements = [Replacement ''a.ts'' (TextUpdate 10 20 ''input<T>'')]\<rparr>,
         importManager = [RegisterImport ''a.ts'' ''input'' ''@angular/core''],
         filesWithMigratedInputs = [''a.ts''], filesWithIncompatibleInputs = {}\<rparr>))"
proof -
  let ?xs = "[(inputA, Some ''<T>''), (inputG, Some ''x''), (inputB, None)]"
  let ?st = "\<lparr>result = \<lparr>sourceInputs = ?xs,
                    replacements = [Replacement ''a.ts'' (TextUpdate 10 20 ''input<T>'')]\<rparr>,
         importManager = [RegisterImport ''a.ts'' ''input'' ''@angular/core''],
         filesWithMigratedInputs = [''a.ts''], filesWithIncompatibleInputs = {}\<rparr>"
  have v: "contractViolation exKnownInputs (inputG, Some ''x'')"
    by (simp add: contractViolation_def compatibleInput_def isAccessor_def example_defs)
  have p: "migrateLoop exExternals (exHost True) () exKnownInputs () (initialState (exResult ?xs) [])
      [(inputA, Some ''<T>'')] = Inr ?st"
    by (simp add: run_defs example_defs)
  have "\<exists>pre d post. sourceInputs (exResult ?xs) = pre @ d # post
       \<and> migrateLoop exExternals (exHost True) () exKnownInputs () (initialState (exResult ?xs) []) pre = Inr ?st
       \<and> contractViolation exKnownInputs d"
    apply (rule exI [of _ "[(inputA, Some ''<T>'')]"])
    apply (rule exI [of _ "(inputG, Some ''x'')"])
    apply (rule exI [of _ "[(inputB, None)]"])
    using v p by (simp add: exResult_def)
  then have "\<exists>msg. pass6__migrateInputDeclarations exExternals (exHost True) ()
        (exResult ?xs) exKnownInputs [] () = Inl (AssertionError msg, ?st)"
    using assertion_failure_iff [where ext = exExternals and host = "exHost True" and checker = "()"
        and res = "exResult ?xs" and knownInputs = exKnownInputs and im = "[]" and info = "()"
        and st' = ?st]
    by blast
  with v show ?thesis by blast
qed

section \<open>The import of the legacy decorator\<close>

text \<open>
  C1: in a run that returns, the commands of the second loop are what the import manager
  received after the first loop ended. Among them is the removal of \<^verbatim>\<open>Input\<close> of
  \<^verbatim>\<open>@angular/core\<close> for a file F if and only if F is in \<^verbatim>\<open>filesWithMigratedInputs\<close> and not
  in \<^verbatim>\<open>filesWithIncompatibleInputs\<close>. The first set holds the files of the compatible
  declarations of the registry and the second those of the incompatible ones, so a file
  with only incompatible declarations never has the import removed.
\<close>

theorem import_removed_iff:
  assumes "pass6__migrateInputDeclarations ext host checker res knownInputs im info = Inr st'"
  shows "\<exists>st1. migrateLoop ext host checker knownInputs info (initialState res im) (sourceInputs res) = Inr st1
    \<and> filesWithMigratedInputs st' = filesWithMigratedInputs st1
    \<and> filesWithIncompatibleInputs st' = filesWithIncompatibleInputs st1
    \<and> importManager st' = importManager st1 @ issued (importManager st1) (importManager st')
    \<and> (\<forall>F. (RemoveImport F ''Input'' ''@angular/core'' \<in> set (issued (importManager st1) (importManager st')))
           = (F \<in> set (filesWithMigratedInputs st') \<and> F \<notin> filesWithIncompatibleInputs st'))
    \<and> (\<forall>F. (F \<in> set (filesWithMigratedInputs st'))
           = (\<exists>d \<in> set (sourceInputs res). compatibleInput knownInputs (fst d) \<and> getSourceFile (node (fst d)) = F))
    \<and> (\<forall>F. (F \<in> filesWithIncompatibleInputs st')
           = (\<exists>d \<in> set (sourceInputs res). incompatibleInput knownInputs (fst d) \<and> getSourceFile (node (fst d)) = F))
    \<and> (\<forall>F. (\<forall>d \<in> set (sourceInputs res). getSourceFile (node (fst d)) = F \<longrightarrow> incompatibleInput knownInputs (fst d))
           \<longrightarrow> RemoveImport F ''Input'' ''@angular/core'' \<notin> set (issued (importManager st1) (importManager st')))"
proof -
  from assms obtain st1 where
    l: "migrateLoop ext host checker knownInputs info (initialState res im) (sourceInputs res) = Inr st1"
    and f: "st' = st1\<lparr>importManager := importManager st1 @
        map (\<lambda>file. RemoveImport file ''Input'' ''@angular/core'')
          (filter (\<lambda>file. file \<notin> filesWithIncompatibleInputs st1) (filesWithMigratedInputs st1))\<rparr>"
    by (rule pass6_Inr)
  let ?cs = "map (\<lambda>file. RemoveImport file ''Input'' ''@angular/core'')
          (filter (\<lambda>file. file \<notin> filesWithIncompatibleInputs st1) (filesWithMigratedInputs st1))"
  have i: "issued (importManager st1) (importManager st') = ?cs"
    using f by (simp add: issued_append)
  have m: "filesWithMigratedInputs st' = filesWithMigratedInputs st1"
    and u: "filesWithIncompatibleInputs st' = filesWithIncompatibleInputs st1"
    and a: "importManager st' = importManager st1 @ ?cs"
    using f by simp_all
  have r: "\<And>F. (RemoveImport F ''Input'' ''@angular/core'' \<in> set ?cs)
      = (F \<in> set (filesWithMigratedInputs st1) \<and> F \<notin> filesWithIncompatibleInputs st1)"
    by auto
  have ms: "\<And>F. (F \<in> set (filesWithMigratedInputs st1))
           = (\<exists>d \<in> set (sourceInputs res). compatibleInput knownInputs (fst d) \<and> getSourceFile (node (fst d)) = F)"
    unfolding migrateLoop_migrated_files [OF l] by (force simp: initialState_def)
  have us: "\<And>F. (F \<in> filesWithIncompatibleInputs st1)
           = (\<exists>d \<in> set (sourceInputs res). incompatibleInput knownInputs (fst d) \<and> getSourceFile (node (fst d)) = F)"
    unfolding migrateLoop_incompatible_files [OF l] by (force simp: initialState_def)
  have cl: "\<And>d. incompatibleInput knownInputs (fst d) \<Longrightarrow> \<not> compatibleInput knownInputs (fst d)"
    by (auto simp: incompatibleInput_def compatibleInput_def split: option.splits)
  have only: "\<And>F. (\<forall>d \<in> set (sourceInputs res). getSourceFile (node (fst d)) = F \<longrightarrow> incompatibleInput knownInputs (fst d))
           \<Longrightarrow> RemoveImport F ''Input'' ''@angular/core'' \<notin> set ?cs"
    unfolding r ms using cl by blast
  show ?thesis
    apply (rule exI [of _ st1])
    unfolding i m u
    using l a r ms us only by blast
qed

theorem import_removed_iff_witness:
  "\<exists>st' st1. pass6__migrateInputDeclarations exExternals (exHost True) () (exResult exRegistry)
        exKnownInputs [] () = Inr st'
    \<and> migrateLoop exExternals (exHost True) () exKnownInputs () (initialState (exResult exRegistry) [])
        exRegistry = Inr st1
    \<and> RemoveImport ''b.ts'' ''Input'' ''@angular/core'' \<in> set (issued (importManager st1) (importManager st'))
    \<and> RemoveImport ''a.ts'' ''Input'' ''@angular/core'' \<notin> set (issued (importManager st1) (importManager st'))"
proof -
  have "\<exists>st'. pass6__migrateInputDeclarations exExternals (exHost True) () (exResult exRegistry)
        exKnownInputs [] () = Inr st'"
    by (simp add: run_defs example_defs)
  then obtain st' where s: "pass6__migrateInputDeclarations exExternals (exHost True) ()
      (exResult exRegistry) exKnownInputs [] () = Inr st'" ..
  from import_removed_iff [OF s] obtain st1 where
    l: "migrateLoop exExternals (exHost True) () exKnownInputs () (initialState (exResult exRegistry) [])
        (sourceInputs (exResult exRegistry)) = Inr st1"
    and r: "\<And>F. (RemoveImport F ''Input'' ''@angular/core'' \<in> set (issued (importManager st1) (importManager st')))
           = (F \<in> set (filesWithMigratedInputs st') \<and> F \<notin> filesWithIncompatibleInputs st')"
    and m: "\<And>F. (F \<in> set (filesWithMigratedInputs st'))
           = (\<exists>d \<in> set (sourceInputs (exResult exRegistry)).
                compatibleInput exKnownInputs (fst d) \<and> getSourceFile (node (fst d)) = F)"
    and u: "\<And>F. (F \<in> filesWithIncompatibleInputs st')
           = (\<exists>d \<in> set (sourceInputs (exResult exRegistry)).
                incompatibleInput exKnownInputs (fst d) \<and> getSourceFile (node (fst d)) = F)"
    by blast
  have b: "RemoveImport ''b.ts'' ''Input'' ''@angular/core'' \<in> set (issued (importManager st1) (importManager st'))"
    unfolding r m u by (simp add: compatibleInput_def incompatibleInput_def example_defs)
  have a: "RemoveImport ''a.ts'' ''Input'' ''@angular/core'' \<notin> set (issued (importManager st1) (importManager st'))"
    unfolding r m u by (simp add: compatibleInput_def incompatibleInput_def example_defs)
  from l have "migrateLoop exExternals (exHost True) () exKnownInputs () (initialState (exResult exRegistry) [])
        exRegistry = Inr st1" by (simp add: exResult_def)
  with s a b show ?thesis by blast
qed

text \<open>
  C9: in every run the pass sends at most one removal per file. A run that throws does so
  in the first loop and never reaches the second; in a run that returns, the commands of
  the second loop are pairwise different and at most one of them removes an import of
  the file F, however many declarations of F were migrated.
\<close>

theorem at_most_one_removal_per_file:
  "case pass6__migrateInputDeclarations ext host checker res knownInputs im info of
     Inl thrown \<Rightarrow>
       migrateLoop ext host checker knownInputs info (initialState res im) (sourceInputs res) = Inl thrown
   | Inr st' \<Rightarrow>
       (\<exists>st1. migrateLoop ext host checker knownInputs info (initialState res im) (sourceInputs res) = Inr st1
          \<and> importManager st' = importManager st1 @ issued (importManager st1) (importManager st')
          \<and> distinct (issued (importManager st1) (importManager st'))
          \<and> length (filter (isRemoveImportOf F) (issued (importManager st1) (importManager st'))) \<le> 1)"
proof (cases "pass6__migrateInputDeclarations ext host checker res knownInputs im info")
  case (Inl thrown)
  then have "migrateLoop ext host checker knownInputs info (initialState res im) (sourceInputs res) = Inl thrown"
    by (simp add: pass6_Inl)
  then show ?thesis unfolding Inl by simp
next
  case (Inr st')
  then obtain st1 where
    l: "migrateLoop ext host checker knownInputs info (initialState res im) (sourceInputs res) = Inr st1"
    and f: "st' = st1\<lparr>importManager := importManager st1 @
        map (\<lambda>file. RemoveImport file ''Input'' ''@angular/core'')
          (filter (\<lambda>file. file \<notin> filesWithIncompatibleInputs st1) (filesWithMigratedInputs st1))\<rparr>"
    by (rule pass6_Inr)
  let ?files = "filter (\<lambda>file. file \<notin> filesWithIncompatibleInputs st1) (filesWithMigratedInputs st1)"
  let ?cs = "map (\<lambda>file. RemoveImport file ''Input'' ''@angular/core'') ?files"
  have i: "issued (importManager st1) (importManager st') = ?cs"
    using f by (simp add: issued_append)
  have a: "importManager st' = importManager st1 @ ?cs"
    using f by simp
  have "distinct (filesWithMigratedInputs st1)"
    using migrateLoop_distinct [OF l] by (simp add: initialState_def)
  then have d: "distinct ?files" by simp
  then have dc: "distinct ?cs" by (simp add: distinct_map inj_on_def)
  have le: "length (filter (isRemoveImportOf F) ?cs) \<le> 1"
    unfolding removals_of_file using filter_eq_distinct_le_1 [OF d, of F] by simp
  have a': "importManager st' = importManager st1 @ issued (importManager st1) (importManager st')"
    unfolding i by (rule a)
  have dc': "distinct (issued (importManager st1) (importManager st'))"
    unfolding i by (rule dc)
  have le': "length (filter (isRemoveImportOf F) (issued (importManager st1) (importManager st'))) \<le> 1"
    unfolding i by (rule le)
  show ?thesis
    unfolding Inr sum.case by (rule exI [of _ st1]) (intro conjI l a' dc' le')
qed

theorem at_most_one_removal_per_file_witness:
  "\<exists>st' st1. pass6__migrateInputDeclarations exExternals (exHost True) () (exResult exMigratedOnly)
        exKnownInputs [] () = Inr st'
    \<and> migrateLoop exExternals (exHost True) () exKnownInputs ()
        (initialState (exResult exMigratedOnly) []) exMigratedOnly = Inr st1
    \<and> issued (importManager st1) (importManager st') =
        [RemoveImport ''a.ts'' ''Input'' ''@angular/core'', RemoveImport ''b.ts'' ''Input'' ''@angular/core'']
    \<and> length (filter (isRemoveImportOf ''a.ts'') (issued (importManager st1) (importManager st'))) \<le> 1"
proof -
  let ?st1 = "\<lparr>result = \<lparr>sourceInputs = exMigratedOnly, replacements =
         [Replacement ''a.ts'' (TextUpdate 10 20 ''input<T>''),
          Replacement ''a.ts'' (TextUpdate 70 80 ''input<V>''),
          Replacement ''b.ts'' (TextUpdate 5 15 ''input<U>'')]\<rparr>,
       importManager = [RegisterImport ''a.ts'' ''input'' ''@angular/core'',
          RegisterImport ''a.ts'' ''input'' ''@angular/core'',
          RegisterImport ''b.ts'' ''input'' ''@angular/core''],
       filesWithMigratedInputs = [''a.ts'', ''b.ts''], filesWithIncompatibleInputs = {}\<rparr>"
  let ?st' = "?st1\<lparr>importManager := importManager ?st1 @
        [RemoveImport ''a.ts'' ''Input'' ''@angular/core'', RemoveImport ''b.ts'' ''Input'' ''@angular/core'']\<rparr>"
  have l: "migrateLoop exExternals (exHost True) () exKnownInputs ()
        (initialState (exResult exMigratedOnly) []) exMigratedOnly = Inr ?st1"
    by (simp add: run_defs example_defs)
  have s: "pass6__migrateInputDeclarations exExternals (exHost True) () (exResult exMigratedOnly)
        exKnownInputs [] () = Inr ?st'"
    by (simp add: run_defs example_defs)
  have i: "issued (importManager ?st1) (importManager ?st') =
        [RemoveImport ''a.ts'' ''Input'' ''@angular/core'', RemoveImport ''b.ts'' ''Input'' ''@angular/core'']"
    by (simp add: issued_def)
  have "length (filter (isRemoveImportOf ''a.ts'') (issued (importManager ?st1) (importManager ?st'))) \<le> 1"
    using at_most_one_removal_per_file [where ext = exExternals and host = "exHost True"
        and checker = "()" and res = "exResult exMigratedOnly" and knownInputs = exKnownInputs
        and im = "[]" and info = "()" and F = "''a.ts''"]
    unfolding s using l by (simp add: exResult_def)
  with l s i show ?thesis by blast
qed

section \<open>One path for each declaration\<close>

text \<open>
  C3: in a run that returns, the loop reaches every declaration of the registry and takes
  exactly one path for it. An incompatible declaration takes the skip path: the only
  edits pushed for it are those of the annotator (none when the option is off), never the
  replacement of the declaration, and its file joins \<^verbatim>\<open>filesWithIncompatibleInputs\<close> while
  \<^verbatim>\<open>filesWithMigratedInputs\<close> stays. A compatible declaration takes the migrate path: the
  one replacement is pushed and its file joins \<^verbatim>\<open>filesWithMigratedInputs\<close> while
  \<^verbatim>\<open>filesWithIncompatibleInputs\<close> stays. At the end a file is in the one set exactly when
  the skip path ran for one of its declarations, and in the other exactly when the
  migrate path did.
\<close>

theorem exactly_one_path:
  assumes "pass6__migrateInputDeclarations ext host checker res knownInputs im info = Inr st'"
  shows "(\<forall>pre input metadata post. sourceInputs res = pre @ (input, metadata) # post \<longrightarrow>
      (\<exists>sa sb. migrateLoop ext host checker knownInputs info (initialState res im) pre = Inr sa
         \<and> processInput ext host checker knownInputs info sa input metadata = Inr sb
         \<and> incompatibleInput knownInputs input \<noteq> compatibleInput knownInputs input
         \<and> (if incompatibleInput knownInputs input
            then (\<exists>inputInfo. knownInputs input = Some inputInfo
                   \<and> sb = skipPath ext host info sa input inputInfo
                   \<and> replacements (result sb) = replacements (result sa) @
                        (if insertTodosForSkippedFields (config host)
                         then insertTodoForIncompatibility ext (node input) info inputInfo else [])
                   \<and> filesWithIncompatibleInputs sb =
                        insert (getSourceFile (node input)) (filesWithIncompatibleInputs sa)
                   \<and> filesWithMigratedInputs sb = filesWithMigratedInputs sa)
            else (\<exists>md. metadata = Some md
                   \<and> sb = migratePath ext checker info sa input md
                   \<and> replacements (result sb) = replacements (result sa) @
                        [Replacement (projectFile ext (getSourceFile (node input)) info)
                           (TextUpdate (getStart (node input)) (getEnd (node input))
                              (fst (convertToSignalInput ext (node input) md checker
                                      (importManager sa) (result sa))))]
                   \<and> set (filesWithMigratedInputs sb) =
                        insert (getSourceFile (node input)) (set (filesWithMigratedInputs sa))
                   \<and> filesWithIncompatibleInputs sb = filesWithIncompatibleInputs sa))))
    \<and> (\<forall>F. (F \<in> filesWithIncompatibleInputs st')
           = (\<exists>d \<in> set (sourceInputs res). incompatibleInput knownInputs (fst d) \<and> getSourceFile (node (fst d)) = F))
    \<and> (\<forall>F. (F \<in> set (filesWithMigratedInputs st'))
           = (\<exists>d \<in> set (sourceInputs res). compatibleInput knownInputs (fst d) \<and> getSourceFile (node (fst d)) = F))"
proof -
  let ?loop = "migrateLoop ext host checker knownInputs info"
  from assms obtain st1 where
    l: "?loop (initialState res im) (sourceInputs res) = Inr st1"
    and f: "st' = st1\<lparr>importManager := importManager st1 @
        map (\<lambda>file. RemoveImport file ''Input'' ''@angular/core'')
          (filter (\<lambda>file. file \<notin> filesWithIncompatibleInputs st1) (filesWithMigratedInputs st1))\<rparr>"
    by (rule pass6_Inr)
  have m: "filesWithMigratedInputs st' = filesWithMigratedInputs st1"
    and u: "filesWithIncompatibleInputs st' = filesWithIncompatibleInputs st1"
    using f by simp_all
  have ms: "\<forall>F. (F \<in> set (filesWithMigratedInputs st'))
           = (\<exists>d \<in> set (sourceInputs res). compatibleInput knownInputs (fst d) \<and> getSourceFile (node (fst d)) = F)"
    unfolding m migrateLoop_migrated_files [OF l] by (force simp: initialState_def)
  have us: "\<forall>F. (F \<in> filesWithIncompatibleInputs st')
           = (\<exists>d \<in> set (sourceInputs res). incompatibleInput knownInputs (fst d) \<and> getSourceFile (node (fst d)) = F)"
    unfolding u migrateLoop_incompatible_files [OF l] by (force simp: initialState_def)
  have each: "\<exists>sa sb. ?loop (initialState res im) pre = Inr sa
         \<and> processInput ext host checker knownInputs info sa input metadata = Inr sb
         \<and> incompatibleInput knownInputs input \<noteq> compatibleInput knownInputs input
         \<and> (if incompatibleInput knownInputs input
            then (\<exists>inputInfo. knownInputs input = Some inputInfo
                   \<and> sb = skipPath ext host info sa input inputInfo
                   \<and> replacements (result sb) = replacements (result sa) @
                        (if insertTodosForSkippedFields (config host)
                         then insertTodoForIncompatibility ext (node input) info inputInfo else [])
                   \<and> filesWithIncompatibleInputs sb =
                        insert (getSourceFile (node input)) (filesWithIncompatibleInputs sa)
                   \<and> filesWithMigratedInputs sb = filesWithMigratedInputs sa)
            else (\<exists>md. metadata = Some md
                   \<and> sb = migratePath ext checker info sa input md
                   \<and> replacements (result sb) = replacements (result sa) @
                        [Replacement (projectFile ext (getSourceFile (node input)) info)
                           (TextUpdate (getStart (node input)) (getEnd (node input))
                              (fst (convertToSignalInput ext (node input) md checker
                                      (importManager sa) (result sa))))]
                   \<and> set (filesWithMigratedInputs sb) =
                        insert (getSourceFile (node input)) (set (filesWithMigratedInputs sa))
                   \<and> filesWithIncompatibleInputs sb = filesWithIncompatibleInputs sa))"
    if split: "sourceInputs res = pre @ (input, metadata) # post" for pre input metadata post
  proof -
    from l split obtain sa sb where
      a: "?loop (initialState res im) pre = Inr sa"
      and b: "processInput ext host checker knownInputs info sa input metadata = Inr sb"
      by (auto elim: migrateLoop_Inr_split)
    from b show ?thesis
    proof (cases rule: processInput_Inr_cases)
      case (skip inputInfo)
      then have "incompatibleInput knownInputs input" "\<not> compatibleInput knownInputs input"
        by (simp_all add: incompatibleInput_def compatibleInput_def)
      with a b skip show ?thesis
        by (simp add: skipPath_simps)
    next
      case (migrate inputInfo md)
      then have "\<not> incompatibleInput knownInputs input" "compatibleInput knownInputs input"
        by (simp_all add: incompatibleInput_def compatibleInput_def)
      with a b migrate show ?thesis
        by (simp add: migratePath_simps set_setAdd)
    qed
  qed
  from each ms us show ?thesis by blast
qed

theorem exactly_one_path_witness:
  "\<exists>st' sa sb. pass6__migrateInputDeclarations exExternals (exHost True) () (exResult exRegistry)
        exKnownInputs [] () = Inr st'
    \<and> migrateLoop exExternals (exHost True) () exKnownInputs () (initialState (exResult exRegistry) [])
        [(inputA, Some ''<T>'')] = Inr sa
    \<and> processInput exExternals (exHost True) () exKnownInputs () sa inputB None = Inr sb
    \<and> sb = skipPath exExternals (exHost True) () sa inputB (Incompatible 1)
    \<and> filesWithMigratedInputs sb = filesWithMigratedInputs sa
    \<and> ''a.ts'' \<in> filesWithIncompatibleInputs st'
    \<and> ''a.ts'' \<in> set (filesWithMigratedInputs st')
    \<and> ''b.ts'' \<notin> filesWithIncompatibleInputs st'"
proof -
  have "\<exists>st'. pass6__migrateInputDeclarations exExternals (exHost True) () (exResult exRegistry)
        exKnownInputs [] () = Inr st'"
    by (simp add: run_defs example_defs)
  then obtain st' where s: "pass6__migrateInputDeclarations exExternals (exHost True) ()
      (exResult exRegistry) exKnownInputs [] () = Inr st'" ..
  note t = exactly_one_path [OF s]
  have split: "sourceInputs (exResult exRegistry) =
      [(inputA, Some ''<T>'')] @ (inputB, None) # [(inputC, Some ''<U>''), (inputD, Some ''<V>'')]"
    by (simp add: exResult_def exRegistry_def)
  have k: "exKnownInputs inputB = Some (Incompatible 1)"
    by (simp add: example_defs)
  then have i: "incompatibleInput exKnownInputs inputB"
    by (simp add: incompatibleInput_def)
  from t split obtain sa sb where
    a: "migrateLoop exExternals (exHost True) () exKnownInputs () (initialState (exResult exRegistry) [])
        [(inputA, Some ''<T>'')] = Inr sa"
    and b: "processInput exExternals (exHost True) () exKnownInputs () sa inputB None = Inr sb"
    and c: "if incompatibleInput exKnownInputs inputB
            then (\<exists>inputInfo. exKnownInputs inputB = Some inputInfo
                   \<and> sb = skipPath exExternals (exHost True) () sa inputB inputInfo
                   \<and> replacements (result sb) = replacements (result sa) @
                        (if insertTodosForSkippedFields (config (exHost True))
                         then insertTodoForIncompatibility exExternals (node inputB) () inputInfo else [])
                   \<and> filesWithIncompatibleInputs sb =
                        insert (getSourceFile (node inputB)) (filesWithIncompatibleInputs sa)
                   \<and> filesWithMigratedInputs sb = filesWithMigratedInputs sa)
            else (\<exists>md. None = Some md
                   \<and> sb = migratePath exExternals () () sa inputB md
                   \<and> replacements (result sb) = replacements (result sa) @
                        [Replacement (projectFile exExternals (getSourceFile (node inputB)) ())
                           (TextUpdate (getStart (node inputB)) (getEnd (node inputB))
                              (fst (convertToSignalInput exExternals (node inputB) md ()
                                      (importManager sa) (result sa))))]
                   \<and> set (filesWithMigratedInputs sb) =
                        insert (getSourceFile (node inputB)) (set (filesWithMigratedInputs sa))
                   \<and> filesWithIncompatibleInputs sb = filesWithIncompatibleInputs sa)"
    by blast
  from c i k have d: "sb = skipPath exExternals (exHost True) () sa inputB (Incompatible 1)"
    "filesWithMigratedInputs sb = filesWithMigratedInputs sa"
    by auto
  from t have e: "''a.ts'' \<in> filesWithIncompatibleInputs st'"
    "''a.ts'' \<in> set (filesWithMigratedInputs st')" "''b.ts'' \<notin> filesWithIncompatibleInputs st'"
    by (simp_all add: compatibleInput_def incompatibleInput_def example_defs)
  from s a b d e show ?thesis by blast
qed

section \<open>The two phases\<close>

text \<open>
  C7: no removal is sent before the first loop has processed the whole registry. With a
  synthesizer that sends no removal itself, the import manager has received no removal
  after any number of declarations of the first loop, nor in a run that throws; in a
  run that returns, its commands are those of the first loop over the whole registry, none
  of them a removal, followed by those of the second loop, all of them removals.
\<close>

theorem removals_after_first_loop:
  assumes "sendsNoRemoval ext"
  shows "(\<forall>k sk. migrateLoop ext host checker knownInputs info (initialState res im)
              (take k (sourceInputs res)) = Inr sk \<longrightarrow>
            importManager sk = im @ issued im (importManager sk)
            \<and> list_all (\<lambda>call. \<not> isRemoveImport call) (issued im (importManager sk)))
    \<and> (case pass6__migrateInputDeclarations ext host checker res knownInputs im info of
         Inl (err, st) \<Rightarrow>
           importManager st = im @ issued im (importManager st)
           \<and> list_all (\<lambda>call. \<not> isRemoveImport call) (issued im (importManager st))
       | Inr st' \<Rightarrow>
           (\<exists>st1. migrateLoop ext host checker knownInputs info (initialState res im)
                    (sourceInputs res) = Inr st1
              \<and> importManager st1 = im @ issued im (importManager st1)
              \<and> list_all (\<lambda>call. \<not> isRemoveImport call) (issued im (importManager st1))
              \<and> importManager st' = importManager st1 @ issued (importManager st1) (importManager st')
              \<and> list_all isRemoveImport (issued (importManager st1) (importManager st'))))"
proof -
  let ?loop = "migrateLoop ext host checker knownInputs info (initialState res im)"
  have loop: "importManager (outcomeState (?loop xs)) = im @ issued im (importManager (outcomeState (?loop xs)))
      \<and> list_all (\<lambda>call. \<not> isRemoveImport call) (issued im (importManager (outcomeState (?loop xs))))" for xs
  proof -
    from migrateLoop_importManager [OF assms, of host checker knownInputs info "initialState res im" xs]
    obtain cs where "importManager (outcomeState (?loop xs)) = im @ cs"
      "list_all (\<lambda>call. \<not> isRemoveImport call) cs"
      by (auto simp: initialState_def)
    then show ?thesis by (simp add: issued_append)
  qed
  have a: "importManager sk = im @ issued im (importManager sk)
            \<and> list_all (\<lambda>call. \<not> isRemoveImport call) (issued im (importManager sk))"
    if "?loop (take k (sourceInputs res)) = Inr sk" for k sk
    using loop [of "take k (sourceInputs res)"] that by simp
  have b: "case pass6__migrateInputDeclarations ext host checker res knownInputs im info of
         Inl (err, st) \<Rightarrow>
           importManager st = im @ issued im (importManager st)
           \<and> list_all (\<lambda>call. \<not> isRemoveImport call) (issued im (importManager st))
       | Inr st' \<Rightarrow>
           (\<exists>st1. ?loop (sourceInputs res) = Inr st1
              \<and> importManager st1 = im @ issued im (importManager st1)
              \<and> list_all (\<lambda>call. \<not> isRemoveImport call) (issued im (importManager st1))
              \<and> importManager st' = importManager st1 @ issued (importManager st1) (importManager st')
              \<and> list_all isRemoveImport (issued (importManager st1) (importManager st')))"
  proof (cases "pass6__migrateInputDeclarations ext host checker res knownInputs im info")
    case (Inl e)
    obtain err st where e: "e = (err, st)" by (cases e)
    from Inl e have "?loop (sourceInputs res) = Inl (err, st)" by (simp add: pass6_Inl)
    with loop [of "sourceInputs res"] show ?thesis unfolding Inl e by simp
  next
    case (Inr st')
    then obtain st1 where
      l: "?loop (sourceInputs res) = Inr st1"
      and f: "st' = st1\<lparr>importManager := importManager st1 @
          map (\<lambda>file. RemoveImport file ''Input'' ''@angular/core'')
            (filter (\<lambda>file. file \<notin> filesWithIncompatibleInputs st1) (filesWithMigratedInputs st1))\<rparr>"
      by (rule pass6_Inr)
    let ?cs = "map (\<lambda>file. RemoveImport file ''Input'' ''@angular/core'')
            (filter (\<lambda>file. file \<notin> filesWithIncompatibleInputs st1) (filesWithMigratedInputs st1))"
    have i: "issued (importManager st1) (importManager st') = ?cs"
      using f by (simp add: issued_append)
    have p: "importManager st' = importManager st1 @ issued (importManager st1) (importManager st')"
      unfolding i using f by simp
    have q: "list_all isRemoveImport (issued (importManager st1) (importManager st'))"
      unfolding i by (simp add: list_all_iff)
    from loop [of "sourceInputs res"] l have
      r: "importManager st1 = im @ issued im (importManager st1)"
        "list_all (\<lambda>call. \<not> isRemoveImport call) (issued im (importManager st1))"
      by simp_all
    show ?thesis
      unfolding Inr sum.case by (rule exI [of _ st1]) (intro conjI l r p q)
  qed
  from a b show ?thesis by blast
qed

theorem removals_after_first_loop_witness:
  "sendsNoRemoval exExternals
   \<and> pass6__migrateInputDeclarations exExternals (exHost True) () (exResult exRegistry) exKnownInputs [] ()
       = Inr exFinal
   \<and> migrateLoop exExternals (exHost True) () exKnownInputs () (initialState (exResult exRegistry) [])
       exRegistry = Inr exAfterLoop
   \<and> list_all (\<lambda>call. \<not> isRemoveImport call) (issued [] (importManager exAfterLoop))
   \<and> importManager exFinal = importManager exAfterLoop @ [RemoveImport ''b.ts'' ''Input'' ''@angular/core'']
   \<and> list_all isRemoveImport (issued (importManager exAfterLoop) (importManager exFinal))"
proof -
  note t = removals_after_first_loop [OF exExternals_sendsNoRemoval, of "exHost True" "()" exKnownInputs
      "()" "exResult exRegistry" "[]"]
  have r: "sourceInputs (exResult exRegistry) = exRegistry" by (simp add: exResult_def)
  from t [unfolded exRegistry_pass r exRegistry_loop sum.case] have "list_all (\<lambda>call. \<not> isRemoveImport call) (issued [] (importManager exAfterLoop))
     \<and> list_all isRemoveImport (issued (importManager exAfterLoop) (importManager exFinal))"
    by auto
  moreover have "importManager exFinal =
      importManager exAfterLoop @ [RemoveImport ''b.ts'' ''Input'' ''@angular/core'']"
    by (simp add: exFinal_def)
  ultimately show ?thesis
    using exExternals_sendsNoRemoval exRegistry_pass exRegistry_loop by blast
qed

section \<open>The option for TODOs\<close>

text \<open>
  C5: with \<^verbatim>\<open>insertTodosForSkippedFields\<close> off the annotator is never called: the pass does
  the same whatever the annotator is. The skip path pushes nothing, and in a run that
  returns the edits pushed are, in order, one whole-declaration edit for each compatible
  declaration of the registry and nothing else, however many incompatible declarations
  there are.
\<close>

theorem no_todos_when_disabled:
  assumes "\<not> insertTodosForSkippedFields (config host)"
  shows "pass6__migrateInputDeclarations (ext\<lparr>insertTodoForIncompatibility := annotator\<rparr>) host checker
            res knownInputs im info =
         pass6__migrateInputDeclarations ext host checker res knownInputs im info
    \<and> (\<forall>st input inputInfo.
          replacements (result (skipPath ext host info st input inputInfo)) = replacements (result st))
    \<and> (\<forall>st'. pass6__migrateInputDeclarations ext host checker res knownInputs im info = Inr st' \<longrightarrow>
          map editRange (pushed res st') =
            map (fullRange ext info) (filter (\<lambda>d. compatibleInput knownInputs (fst d)) (sourceInputs res)))"
proof (intro conjI allI impI)
  show "pass6__migrateInputDeclarations (ext\<lparr>insertTodoForIncompatibility := annotator\<rparr>) host checker
            res knownInputs im info =
         pass6__migrateInputDeclarations ext host checker res knownInputs im info"
    by (simp add: pass6__migrateInputDeclarations_def migrateLoop_annotator_unused [OF assms])
next
  fix st :: "'a pass_state" and input inputInfo
  show "replacements (result (skipPath ext host info st input inputInfo)) = replacements (result st)"
    using assms by (simp add: skipPath_simps)
next
  fix st'
  assume "pass6__migrateInputDeclarations ext host checker res knownInputs im info = Inr st'"
  with assms show "map editRange (pushed res st') =
      map (fullRange ext info) (filter (\<lambda>d. compatibleInput knownInputs (fst d)) (sourceInputs res))"
    by (rule pushed_without_todos)
qed

theorem no_todos_when_disabled_witness:
  "\<not> insertTodosForSkippedFields (config (exHost False))
   \<and> pass6__migrateInputDeclarations (exExternals\<lparr>insertTodoForIncompatibility := exTodoAbove\<rparr>)
        (exHost False) () (exResult exTwoSkipped) exKnownInputs [] () =
      pass6__migrateInputDeclarations exExternals (exHost False) () (exResult exTwoSkipped)
        exKnownInputs [] ()
   \<and> (\<exists>st'. pass6__migrateInputDeclarations exExternals (exHost False) () (exResult exTwoSkipped)
          exKnownInputs [] () = Inr st'
        \<and> map editRange (pushed (exResult exTwoSkipped) st') = [(''a.ts'', 10, 20)])"
proof -
  have h: "\<not> insertTodosForSkippedFields (config (exHost False))"
    by (simp add: exHost_def)
  have "\<exists>st'. pass6__migrateInputDeclarations exExternals (exHost False) () (exResult exTwoSkipped)
        exKnownInputs [] () = Inr st'"
    by (simp add: run_defs example_defs)
  then obtain st' where s: "pass6__migrateInputDeclarations exExternals (exHost False) ()
      (exResult exTwoSkipped) exKnownInputs [] () = Inr st'" ..
  note t = no_todos_when_disabled [where host = "exHost False" and ext = exExternals
      and annotator = exTodoAbove and checker = "()" and res = "exResult exTwoSkipped"
      and knownInputs = exKnownInputs and im = "[]" and info = "()", OF h]
  from t have a: "pass6__migrateInputDeclarations (exExternals\<lparr>insertTodoForIncompatibility := exTodoAbove\<rparr>)
        (exHost False) () (exResult exTwoSkipped) exKnownInputs [] () =
      pass6__migrateInputDeclarations exExternals (exHost False) () (exResult exTwoSkipped)
        exKnownInputs [] ()" ..
  from t s
  have "map editRange (pushed (exResult exTwoSkipped) st') =
      map (fullRange exExternals ())
        (filter (\<lambda>d. compatibleInput exKnownInputs (fst d)) (sourceInputs (exResult exTwoSkipped)))"
    by blast
  also have "\<dots> = [(''a.ts'', 10, 20)]"
    by (simp add: fullRange_def compatibleInput_def example_defs)
  finally have e: "map editRange (pushed (exResult exTwoSkipped) st') = [(''a.ts'', 10, 20)]" .
  show ?thesis
    by (intro conjI h a exI [of _ st'] s e)
qed

text \<open>
  C10: two runs on the same inputs, one with \<^verbatim>\<open>insertTodosForSkippedFields\<close> off and one
  with it on, with a synthesizer that does not read the edits pushed so far. Both
  return or both throw the same error. When they return, the import manager has received
  the same commands, so the same removals, the two sets of files are the same, and the
  edits of the run with TODOs are those of the run without, which are the
  whole-declaration edits of the compatible declarations, with the annotator's edits put
  in between. A file with an incompatible declaration gets no removal in the run without
  TODOs.
\<close>

theorem todo_option_only_adds_todos:
  assumes "ignoresReplacements ext" and "\<not> insertTodosForSkippedFields (config hostOff)"
    and "insertTodosForSkippedFields (config hostOn)"
  shows "case (pass6__migrateInputDeclarations ext hostOff checker res knownInputs im info,
               pass6__migrateInputDeclarations ext hostOn checker res knownInputs im info) of
      (Inr off, Inr on) \<Rightarrow>
          importManager off = importManager on
        \<and> filesWithMigratedInputs off = filesWithMigratedInputs on
        \<and> filesWithIncompatibleInputs off = filesWithIncompatibleInputs on
        \<and> pushed res on = weaveTodos ext info knownInputs (sourceInputs res) (pushed res off)
        \<and> map editRange (pushed res off) =
            map (fullRange ext info) (filter (\<lambda>d. compatibleInput knownInputs (fst d)) (sourceInputs res))
        \<and> (\<forall>d \<in> set (sourceInputs res). incompatibleInput knownInputs (fst d) \<longrightarrow>
              RemoveImport (getSourceFile (node (fst d))) ''Input'' ''@angular/core'' \<notin>
                set (issued (importManager (outcomeState
                      (migrateLoop ext hostOff checker knownInputs info (initialState res im)
                         (sourceInputs res))))
                    (importManager off)))
    | (Inl (e, off), Inl (e', on)) \<Rightarrow> e = e' \<and> sameButReplacements off on
    | _ \<Rightarrow> False"
proof -
  let ?st0 = "initialState res im"
  let ?loopOff = "migrateLoop ext hostOff checker knownInputs info ?st0 (sourceInputs res)"
  let ?loopOn = "migrateLoop ext hostOn checker knownInputs info ?st0 (sourceInputs res)"
  let ?passOff = "pass6__migrateInputDeclarations ext hostOff checker res knownInputs im info"
  let ?passOn = "pass6__migrateInputDeclarations ext hostOn checker res knownInputs im info"
  note sim = migrateLoop_same [where s = ?st0 and t = ?st0 and xs = "sourceInputs res"
      and checker = checker and knownInputs = knownInputs and info = info,
      OF assms sameButReplacements_refl]
  show ?thesis
  proof (cases ?loopOff)
    case offL: (Inl a)
    obtain e s where a: "a = (e, s)" by (cases a)
    from sim offL a obtain t where onL: "?loopOn = Inl (e, t)" and st: "sameButReplacements s t"
      by (auto split: sum.splits)
    have "?passOff = Inl (e, s)" "?passOn = Inl (e, t)"
      using offL a onL by (simp_all add: pass6_Inl)
    with st show ?thesis by simp
  next
    case offR: (Inr s1)
    from sim offR obtain t1 ms where onR: "?loopOn = Inr t1" and st: "sameButReplacements s1 t1"
      and rs: "replacements (result s1) = replacements res @ ms"
      and rt: "replacements (result t1) = replacements res @ weaveTodos ext info knownInputs (sourceInputs res) ms"
      by (auto simp: initialState_def split: sum.splits prod.splits)
    let ?off = "s1\<lparr>importManager := removeLoop (filesWithIncompatibleInputs s1) (importManager s1)
        (filesWithMigratedInputs s1)\<rparr>"
    let ?on = "t1\<lparr>importManager := removeLoop (filesWithIncompatibleInputs t1) (importManager t1)
        (filesWithMigratedInputs t1)\<rparr>"
    have po: "?passOff = Inr ?off" and pn: "?passOn = Inr ?on"
      using offR onR by (simp_all add: pass6__migrateInputDeclarations_def)
    have 1: "importManager ?off = importManager ?on"
      "filesWithMigratedInputs ?off = filesWithMigratedInputs ?on"
      "filesWithIncompatibleInputs ?off = filesWithIncompatibleInputs ?on"
      using st by (simp_all add: sameButReplacements_def)
    have 2: "pushed res ?on = weaveTodos ext info knownInputs (sourceInputs res) (pushed res ?off)"
      using rs rt by (simp add: pushed_def)
    note 3 = pushed_without_todos [OF assms(2) po]
    have 4: "\<forall>d \<in> set (sourceInputs res). incompatibleInput knownInputs (fst d) \<longrightarrow>
              RemoveImport (getSourceFile (node (fst d))) ''Input'' ''@angular/core'' \<notin>
                set (issued (importManager (outcomeState ?loopOff)) (importManager ?off))"
      using pass6_keeps_import [OF po] by blast
    show ?thesis
      unfolding po pn prod.case sum.case by (intro conjI 1 2 3 4)
  qed
qed

theorem todo_option_only_adds_todos_witness:
  "ignoresReplacements exExternals
   \<and> \<not> insertTodosForSkippedFields (config (exHost False))
   \<and> insertTodosForSkippedFields (config (exHost True))
   \<and> (\<exists>off. pass6__migrateInputDeclarations exExternals (exHost False) () (exResult exRegistry)
          exKnownInputs [] () = Inr off
        \<and> pass6__migrateInputDeclarations exExternals (exHost True) () (exResult exRegistry)
          exKnownInputs [] () = Inr exFinal
        \<and> importManager off = importManager exFinal
        \<and> filesWithMigratedInputs off = filesWithMigratedInputs exFinal
        \<and> filesWithIncompatibleInputs off = filesWithIncompatibleInputs exFinal
        \<and> pushed (exResult exRegistry) exFinal =
            weaveTodos exExternals () exKnownInputs exRegistry (pushed (exResult exRegistry) off))"
proof -
  have h0: "\<not> insertTodosForSkippedFields (config (exHost False))"
    and h1: "insertTodosForSkippedFields (config (exHost True))"
    by (simp_all add: exHost_def)
  have "\<exists>off. pass6__migrateInputDeclarations exExternals (exHost False) () (exResult exRegistry)
        exKnownInputs [] () = Inr off"
    by (simp add: run_defs example_defs)
  then obtain off where o: "pass6__migrateInputDeclarations exExternals (exHost False) ()
      (exResult exRegistry) exKnownInputs [] () = Inr off" ..
  have r: "sourceInputs (exResult exRegistry) = exRegistry" by (simp add: exResult_def)
  note t = todo_option_only_adds_todos [where ext = exExternals and hostOff = "exHost False"
      and hostOn = "exHost True" and checker = "()" and res = "exResult exRegistry"
      and knownInputs = exKnownInputs and im = "[]" and info = "()",
      OF exExternals_ignoresReplacements h0 h1, unfolded o exRegistry_pass prod.case sum.case r]
  from t have c: "importManager off = importManager exFinal"
    "filesWithMigratedInputs off = filesWithMigratedInputs exFinal"
    "filesWithIncompatibleInputs off = filesWithIncompatibleInputs exFinal"
    "pushed (exResult exRegistry) exFinal =
       weaveTodos exExternals () exKnownInputs exRegistry (pushed (exResult exRegistry) off)"
    by blast+
  show ?thesis
    by (intro conjI exExternals_ignoresReplacements h0 h1 exI [of _ off] o exRegistry_pass c)
qed

section \<open>Edits of one file do not overlap\<close>

text \<open>
  That the declarations are disjoint and that every edit of the annotator is strictly
  outside its own declaration does not make the pushed edits disjoint. In the first run
  the comment for B, placed above B, lies inside the declaration A before it, which is
  replaced as a whole. In the second run the comments lie outside every declaration and
  overlap each other.
\<close>

theorem own_range_not_enough_counterexample:
  "declarationsDisjoint exExternalsAbove () (sourceInputs (exResult exNeighbours))
   \<and> todosOutsideOwnDeclaration exExternalsAbove (exHost True) () exKnownInputs
        (sourceInputs (exResult exNeighbours))
   \<and> \<not> isl (pass6__migrateInputDeclarations exExternalsAbove (exHost True) () (exResult exNeighbours)
            exKnownInputs [] ())
   \<and> map editRange (pushed (exResult exNeighbours)
        (outcomeState (pass6__migrateInputDeclarations exExternalsAbove (exHost True) ()
           (exResult exNeighbours) exKnownInputs [] ()))) = [(''a.ts'', 10, 20), (''a.ts'', 12, 18)]
   \<and> \<not> nonOverlapping (map editRange (pushed (exResult exNeighbours)
        (outcomeState (pass6__migrateInputDeclarations exExternalsAbove (exHost True) ()
           (exResult exNeighbours) exKnownInputs [] ()))))
   \<and> declarationsDisjoint exExternalsTwice () (sourceInputs (exResult exNeighbours))
   \<and> todosOutsideOwnDeclaration exExternalsTwice (exHost True) () exKnownInputs
        (sourceInputs (exResult exNeighbours))
   \<and> todosOutsideDeclarations exExternalsTwice (exHost True) () exKnownInputs
        (sourceInputs (exResult exNeighbours))
   \<and> \<not> isl (pass6__migrateInputDeclarations exExternalsTwice (exHost True) () (exResult exNeighbours)
            exKnownInputs [] ())
   \<and> map editRange (pushed (exResult exNeighbours)
        (outcomeState (pass6__migrateInputDeclarations exExternalsTwice (exHost True) ()
           (exResult exNeighbours) exKnownInputs [] ()))) =
        [(''a.ts'', 10, 20), (''a.ts'', 22, 28), (''a.ts'', 25, 29)]
   \<and> \<not> nonOverlapping (map editRange (pushed (exResult exNeighbours)
        (outcomeState (pass6__migrateInputDeclarations exExternalsTwice (exHost True) ()
           (exResult exNeighbours) exKnownInputs [] ()))))"
  by (simp add: range_defs run_defs example_defs)

text \<open>
  C8, amended: when the declarations of the registry occupy ranges that do not overlap,
  no edit of the annotator overlaps the range of any declaration of the registry in its
  file, its own or another, and the edits of the annotator do not overlap one another,
  then in every run, returned or thrown, no two of the edits the pass has pushed overlap:
  for every file, the edits pushed for it describe pairwise non-overlapping ranges.
\<close>

theorem pushed_edits_disjoint:
  assumes "declarationsDisjoint ext info (sourceInputs res)"
    and "todosOutsideDeclarations ext host info knownInputs (sourceInputs res)"
    and "todosDisjoint ext host info knownInputs (sourceInputs res)"
  shows "nonOverlapping (map editRange (pushed res
      (outcomeState (pass6__migrateInputDeclarations ext host checker res knownInputs im info))))"
proof (cases "pass6__migrateInputDeclarations ext host checker res knownInputs im info")
  case (Inr st')
  from pass6_pushed [OF Inr] nonOverlapping_pushed_ranges [OF assms]
  show ?thesis unfolding Inr by simp
next
  case (Inl thrown)
  obtain err st where t: "thrown = (err, st)" by (cases thrown)
  from Inl t have "migrateLoop ext host checker knownInputs info (initialState res im) (sourceInputs res)
      = Inl (err, st)" by (simp add: pass6_Inl)
  then obtain pre input metadata post where
    split: "sourceInputs res = pre @ (input, metadata) # post"
    and l: "migrateLoop ext host checker knownInputs info (initialState res im) pre = Inr st"
    by (rule migrateLoop_Inl_split)
  from assms have "declarationsDisjoint ext info pre \<and> todosOutsideDeclarations ext host info knownInputs pre
    \<and> todosDisjoint ext host info knownInputs pre"
    unfolding split by (rule disjointness_prefix)
  then have p: "declarationsDisjoint ext info pre" "todosOutsideDeclarations ext host info knownInputs pre"
    "todosDisjoint ext host info knownInputs pre" by simp_all
  have n: "nonOverlapping (concat (map (\<lambda>d. if incompatibleInput knownInputs (fst d)
                         then map editRange (todoEditsFor ext host info knownInputs d)
                         else [fullRange ext info d]) pre))"
    by (rule nonOverlapping_pushed_ranges [OF p])
  from migrateLoop_pushed [OF l] obtain E where
    e: "replacements (result st) = replacements res @ E"
      "map editRange E = concat (map (\<lambda>d. if incompatibleInput knownInputs (fst d)
                         then map editRange (todoEditsFor ext host info knownInputs d)
                         else [fullRange ext info d]) pre)"
    by (auto simp: initialState_def)
  from e(1) have "pushed res st = E" by (rule pushed_append)
  with e(2) n show ?thesis unfolding Inl t by simp
qed

theorem pushed_edits_disjoint_witness:
  "declarationsDisjoint exExternals () (sourceInputs (exResult exRegistry))
   \<and> todosOutsideDeclarations exExternals (exHost True) () exKnownInputs (sourceInputs (exResult exRegistry))
   \<and> todosDisjoint exExternals (exHost True) () exKnownInputs (sourceInputs (exResult exRegistry))
   \<and> nonOverlapping (map editRange (pushed (exResult exRegistry) exFinal))"
proof -
  have a: "declarationsDisjoint exExternals () (sourceInputs (exResult exRegistry))"
    by (simp add: range_defs example_defs)
  have b: "todosOutsideDeclarations exExternals (exHost True) () exKnownInputs
      (sourceInputs (exResult exRegistry))"
    by (simp add: range_defs example_defs)
  have c: "todosDisjoint exExternals (exHost True) () exKnownInputs (sourceInputs (exResult exRegistry))"
    by (simp add: range_defs example_defs)
  from pushed_edits_disjoint [OF a b c, of "()" "[]"]
  have "nonOverlapping (map editRange (pushed (exResult exRegistry) exFinal))"
    unfolding exRegistry_pass by simp
  with a b c show ?thesis by blast
qed

end
